theory Spec2Isabelle
  imports Main "HOL-Library.Sublist"
begin

section \<open>The authenticated-request pipeline of the Jamf classic API client\<close>

text \<open>
  The Go package \<^verbatim>\<open>classic\<close> holds a client with a bearer token, renews the token
  before a request when it is missing or about to expire, decorates and executes the
  request, and decodes the response body as XML or JSON by its content type.

  The functions of the package are translated one by one. What they call outside the
  package (the HTTP transport, URL parsing, the clock, RFC3339 parsing, the JSON and XML
  decoders, base64 for basic authentication) is not part of the package: these are the
  fields of an environment record \<open>env\<close>, and the theorems with a variable \<open>env\<close> hold
  for every environment.
  Mutation is explicit: a function returns the client, the executed-requests log, the
  request and the result container as it leaves them.
\<close>

subsection \<open>Errors\<close>

text \<open>
  A Go \<^verbatim>\<open>error\<close> is \<open>error option\<close>, \<open>None\<close> being \<^verbatim>\<open>nil\<close>. \<open>Err\<close> is an error made from a
  message (\<^verbatim>\<open>errors.New\<close>, \<^verbatim>\<open>fmt.Errorf\<close>, or an error of a library); \<open>Wrap\<close> is an
  error of \<^verbatim>\<open>github.com/pkg/errors\<close> annotating a cause with a message. \<open>Error\<close> is the
  method \<^verbatim>\<open>Error()\<close>: the message of a wrapped error is the annotation, a colon and
  a space, and the message of the cause.
\<close>

datatype error = Err string | Wrap string error

fun Error :: "error \<Rightarrow> string" where
  "Error (Err s) = s"
| "Error (Wrap msg cause) = msg @ '': '' @ Error cause"

text \<open>
  \<^verbatim>\<open>errors.Wrapf(err, format, args...)\<close> of \<^verbatim>\<open>github.com/pkg/errors\<close>: "If err is nil,
  Wrapf returns nil." The second argument is the formatted message.
\<close>

fun Wrapf :: "error option \<Rightarrow> string \<Rightarrow> error option" where
  "Wrapf None msg = None"
| "Wrapf (Some err) msg = Some (Wrap msg err)"

subsection \<open>Data\<close>

text \<open>
  \<^verbatim>\<open>http.Client\<close> as far as the package sets it: the timeout, a \<^verbatim>\<open>time.Duration\<close> in
  nanoseconds.
\<close>

record http_Client =
  Timeout :: int

text \<open>
  \<^verbatim>\<open>JamfToken\<close>: the fields \<^verbatim>\<open>Token\<close> and \<^verbatim>\<open>Expires\<close>, named here by their JSON keys
  (\<open>Token\<close> is the field of the client below).
\<close>

record JamfToken =
  token :: string
  expires :: string

text \<open>
  \<^verbatim>\<open>Client\<close>. \<open>Domain'\<close> is the field \<^verbatim>\<open>Domain\<close>. \<open>Token\<close> is the token the pointer
  \<^verbatim>\<open>j.Token\<close> points to (\<^verbatim>\<open>NewClient\<close> allocates it, so it is never nil); the logger is
  never used by the functions below and is left out.
\<close>

record Client =
  Domain' :: string
  Username :: string
  Password :: string
  Endpoint :: string
  Token :: JamfToken
  api :: http_Client

text \<open>
  An HTTP header: \<^verbatim>\<open>map[string][]string\<close>. \<^verbatim>\<open>Set\<close> replaces the values of a key by one
  value; \<^verbatim>\<open>Get\<close> returns the first value of a key, or the empty string. (Go
  canonicalises the key first; every key used below is in canonical form already.)
\<close>

type_synonym header = "string \<rightharpoonup> string list"

definition Header_Set :: "header \<Rightarrow> string \<Rightarrow> string \<Rightarrow> header" where
  "Header_Set h key v = h(key \<mapsto> [v])"

definition Header_Get :: "header \<Rightarrow> string \<Rightarrow> string" where
  "Header_Get h key = (case h key of None \<Rightarrow> [] | Some [] \<Rightarrow> [] | Some (v # _) \<Rightarrow> v)"

record request =
  Method :: string
  URL :: string
  Header :: header

text \<open>
  A response body is an \<^verbatim>\<open>io.Reader\<close>: the bytes it yields, and the error that ends
  the stream (\<open>None\<close> for a clean end of file). \<^verbatim>\<open>io.ReadAll\<close> returns both.
\<close>

datatype reader = Reader string "error option"

fun ReadAll :: "reader \<Rightarrow> string \<times> error option" where
  "ReadAll (Reader responseData err) = (responseData, err)"

text \<open>\<^verbatim>\<open>http.Response\<close>; \<open>RespHeader\<close> is its field \<^verbatim>\<open>Header\<close>.\<close>

record response =
  Status :: string
  StatusCode :: int
  RespHeader :: header
  Body :: reader

subsection \<open>The environment\<close>

text \<open>
  \<^item> \<open>url_Parse\<close>: \<^verbatim>\<open>url.Parse\<close>, returning the URL as \<^verbatim>\<open>String()\<close> prints it;
  \<^item> \<open>basicAuth\<close>: the base64 credential of \<^verbatim>\<open>SetBasicAuth\<close>;
  \<^item> \<open>Do\<close>: \<^verbatim>\<open>(*http.Client).Do\<close>, which may depend on the client's settings and on
    the requests executed before;
  \<^item> \<open>time_Parse\<close>: \<^verbatim>\<open>time.Parse(time.RFC3339, _)\<close>, an instant in nanoseconds;
  \<^item> \<open>time_Now\<close>: the clock when \<^verbatim>\<open>time.Until\<close> reads it;
  \<^item> \<open>json_Decode_token\<close>, \<open>json_Decode\<close>, \<open>xml_Decode\<close>: \<^verbatim>\<open>NewDecoder(body).Decode(target)\<close>
    of \<^verbatim>\<open>encoding/json\<close> and \<^verbatim>\<open>encoding/xml\<close>. A decoder writes into its target in
    place and returns an error: the model returns the target as the decoder leaves it,
    and the error.
\<close>

record 'v env =
  url_Parse :: "string \<Rightarrow> error + string"
  basicAuth :: "string \<Rightarrow> string \<Rightarrow> string"
  Do :: "http_Client \<Rightarrow> request list \<Rightarrow> request \<Rightarrow> error + response"
  time_Parse :: "string \<Rightarrow> error + int"
  time_Now :: int
  json_Decode_token :: "reader \<Rightarrow> JamfToken \<Rightarrow> JamfToken \<times> error option"
  json_Decode :: "reader \<Rightarrow> 'v \<Rightarrow> 'v \<times> error option"
  xml_Decode :: "reader \<Rightarrow> 'v \<Rightarrow> 'v \<times> error option"

subsection \<open>Library functions the package calls\<close>

text \<open>\<^verbatim>\<open>time.Minute\<close>, and the range of \<^verbatim>\<open>time.Duration\<close> (an int64 of nanoseconds).\<close>

definition Minute :: int where
  "Minute = 60 * 1000000000"

definition minDuration :: int where
  "minDuration = - (2 ^ 63)"

definition maxDuration :: int where
  "maxDuration = 2 ^ 63 - 1"

text \<open>
  \<^verbatim>\<open>t.Sub(u)\<close>: the difference, or the least or greatest duration when the difference
  does not fit. \<^verbatim>\<open>time.Until(t)\<close> is \<^verbatim>\<open>t.Sub(time.Now())\<close>.
\<close>

definition time_Sub :: "int \<Rightarrow> int \<Rightarrow> int" where
  "time_Sub t u =
     (let d = t - u in
      if d < minDuration then minDuration
      else if maxDuration < d then maxDuration
      else d)"

definition time_Until :: "'v env \<Rightarrow> int \<Rightarrow> int" where
  "time_Until env t = time_Sub t (time_Now env)"

text \<open>
  \<^verbatim>\<open>strings.Split(s, sep)\<close> for a separator of one character: the pieces of \<open>s\<close> between
  the separators, one piece more than there are separators.
\<close>

fun Split :: "string \<Rightarrow> char \<Rightarrow> string list" where
  "Split [] sep = [[]]"
| "Split (c # cs) sep =
     (if c = sep then [] # Split cs sep
      else (case Split cs sep of
              [] \<Rightarrow> [[c]]
            | piece # pieces \<Rightarrow> (c # piece) # pieces))"

text \<open>
  \<^verbatim>\<open>http.NewRequestWithContext(context.Background(), method, url, body)\<close> for a valid
  method: it fails with the error of \<^verbatim>\<open>url.Parse\<close>, and otherwise returns a request with
  an empty header.
\<close>

definition NewRequestWithContext :: "'v env \<Rightarrow> string \<Rightarrow> string \<Rightarrow> error + request" where
  "NewRequestWithContext env method url =
     (case url_Parse env url of
        Inl err \<Rightarrow> Inl err
      | Inr u \<Rightarrow> Inr \<lparr>Method = method, URL = u, Header = Map.empty\<rparr>)"

definition SetBasicAuth :: "'v env \<Rightarrow> request \<Rightarrow> string \<Rightarrow> string \<Rightarrow> request" where
  "SetBasicAuth env r username password =
     r\<lparr>Header := Header_Set (Header r) ''Authorization''
                    (''Basic '' @ basicAuth env username password)\<rparr>"

subsection \<open>The package\<close>

text \<open>\<^verbatim>\<open>defaultHTTPClient\<close>: a client whose timeout is one minute.\<close>

definition defaultHTTPClient :: http_Client where
  "defaultHTTPClient = \<lparr>Timeout = Minute\<rparr>"

text \<open>
  \<^verbatim>\<open>NewClient\<close>. The last argument is the log of the requests executed so far, returned as
  the function leaves it; \<open>None\<close> for the client argument and for the result is the nil
  pointer.
\<close>

definition NewClient ::
  "string \<Rightarrow> string \<Rightarrow> string \<Rightarrow> http_Client option \<Rightarrow> request list
     \<Rightarrow> Client option \<times> error option \<times> request list" where
  "NewClient domain username password client w =
     (if domain = [] \<or> username = [] \<or> password = [] then
        (None, Some (Err ''you must provide a valid Jamf domain, username, and password''), w)
      else
        (let client' = (case client of None \<Rightarrow> defaultHTTPClient | Some c \<Rightarrow> c) in
         (Some \<lparr>Domain' = domain, Username = username, Password = password,
                Endpoint = domain @ ''/JSSResource'',
                Token = \<lparr>token = [], expires = []\<rparr>,
                api = client'\<rparr>,
          None, w)))"

text \<open>
  \<^verbatim>\<open>requestToken\<close>. The log grows by the request when \<^verbatim>\<open>j.api.Do\<close> is called. The deferred
  \<^verbatim>\<open>res.Body.Close()\<close> changes nothing that is modelled.
\<close>

definition requestToken ::
  "'v env \<Rightarrow> Client \<Rightarrow> request list \<Rightarrow> error option \<times> Client \<times> request list" where
  "requestToken env j w =
     (let endpoint = Domain' j @ ''/api/v1/auth/token'' in
      case NewRequestWithContext env ''POST'' endpoint of
        Inl err \<Rightarrow> (Wrapf (Some err) ''error creating bearer token request'', j, w)
      | Inr req0 \<Rightarrow>
          (let req = SetBasicAuth env req0 (Username j) (Password j) in
           case Do env (api j) w req of
             Inl err \<Rightarrow>
               (Wrapf (Some err) (''error making '' @ Method req @ '' request to '' @ URL req),
                j, w @ [req])
           | Inr res \<Rightarrow>
               if StatusCode res \<noteq> 200 \<and> StatusCode res \<noteq> 201 then
                 (case ReadAll (Body res) of
                    (responseData, Some err) \<Rightarrow>
                      (Wrapf (Some err)
                         (''request error: '' @ Status res @
                          ''. unable to retrieve plain text response: '' @ Error err),
                       j, w @ [req])
                  | (responseData, None) \<Rightarrow>
                      (Some (Err (''request error: '' @ responseData)), j, w @ [req]))
               else
                 (case json_Decode_token env (Body res) (Token j) of
                    (tok, Some err) \<Rightarrow>
                      (Wrapf (Some err)
                         ''response was successful but error occured decoding JSON token response'',
                       j\<lparr>Token := tok\<rparr>, w @ [req])
                  | (tok, None) \<Rightarrow> (None, j\<lparr>Token := tok\<rparr>, w @ [req]))))"

text \<open>
  \<^verbatim>\<open>checkTokenExpiration\<close>. \<open>renew\<close> is the tail of the function, reached when the
  expiration is empty and when the token does not outlive the five minutes.
\<close>

definition checkTokenExpiration ::
  "'v env \<Rightarrow> Client \<Rightarrow> request list \<Rightarrow> error option \<times> Client \<times> request list" where
  "checkTokenExpiration env j w =
     (let renew =
            (case requestToken env j w of
               (Some err, j', w') \<Rightarrow> (Wrapf (Some err) ''error requesting new bearer token'', j', w')
             | (None, j', w') \<Rightarrow> (None, j', w'))
      in
      if expires (Token j) \<noteq> [] then
        (case time_Parse env (expires (Token j)) of
           Inl err \<Rightarrow>
             (Wrapf (Some err)
                (''error parsing the bearer token expiration date: '' @ expires (Token j)),
              j, w)
         | Inr tokenExpires \<Rightarrow>
             if Minute * 5 < time_Until env tokenExpires then (None, j, w)
             else renew)
      else renew)"

text \<open>
  \<^verbatim>\<open>makeAPIrequest\<close>. It returns the error, and the client, the log, the request (whose
  header it sets in place) and the result container \<open>v\<close> as it leaves them. In the branch
  where \<^verbatim>\<open>j.api.Do\<close> has returned a response, the variable \<^verbatim>\<open>err\<close> is nil; the two decoding
  branches assign it, the default branch of the switch reads it unassigned.
  \<open>contentType[0]\<close> is the head of the pieces, of which there is always one.
\<close>

definition makeAPIrequest ::
  "'v env \<Rightarrow> Client \<Rightarrow> request list \<Rightarrow> request \<Rightarrow> 'v
     \<Rightarrow> error option \<times> Client \<times> request list \<times> request \<times> 'v" where
  "makeAPIrequest env j w r v =
     (case checkTokenExpiration env j w of
        (Some err, j1, w1) \<Rightarrow>
          (Wrapf (Some err) ''error checking for bearer token expiration'', j1, w1, r, v)
      | (None, j1, w1) \<Rightarrow>
          (let r1 = r\<lparr>Header := Header_Set (Header r) ''Accept''
                                   ''application/json, application/xml;q=0.9''\<rparr>;
               r2 = r1\<lparr>Header := Header_Set (Header r1) ''Cache-Control''
                  ''no-store, no-cache, must-revalidate, max-age=0, post-check=0, pre-check=0''\<rparr>;
               r3 = r2\<lparr>Header := Header_Set (Header r2) ''Strict-Transport-Security''
                                   ''max-age=31536000 ; includeSubDomains''\<rparr>;
               r4 = r3\<lparr>Header := Header_Set (Header r3) ''Authorization''
                                   (''Bearer '' @ token (Token j1))\<rparr>
           in
           case Do env (api j1) w1 r4 of
             Inl err \<Rightarrow>
               (Wrapf (Some err) (''error making '' @ Method r4 @ '' request to '' @ URL r4),
                j1, w1 @ [r4], r4, v)
           | Inr res \<Rightarrow>
               (let err = None in
                if StatusCode res \<noteq> 200 \<and> StatusCode res \<noteq> 201 then
                  (case ReadAll (Body res) of
                     (responseData, Some err) \<Rightarrow>
                       (Wrapf (Some err)
                          (''request error: '' @ Status res @
                           ''. unable to retrieve plain text response: '' @ Error err),
                        j1, w1 @ [r4], r4, v)
                   | (responseData, None) \<Rightarrow>
                       (Some (Err (''request error: '' @ responseData)), j1, w1 @ [r4], r4, v))
                else
                  (let contentType = Split (Header_Get (RespHeader res) ''Content-Type'') CHR '';'';
                       t = hd contentType
                   in
                   if t = ''text/xml'' \<or> t = ''application/xml'' then
                     (case xml_Decode env (Body res) v of
                        (v', Some err) \<Rightarrow>
                          (Wrapf (Some err)
                             (''response was successful but error occured decoding response body of type '' @ t),
                           j1, w1 @ [r4], r4, v')
                      | (v', None) \<Rightarrow> (None, j1, w1 @ [r4], r4, v'))
                   else if t = ''text/json'' \<or> t = ''application/json'' \<or> t = ''text/plain'' then
                     (case json_Decode env (Body res) v of
                        (v', Some err) \<Rightarrow>
                          (Wrapf (Some err)
                             (''response was successful but error occured error decoding response body of type '' @ t),
                           j1, w1 @ [r4], r4, v')
                      | (v', None) \<Rightarrow> (None, j1, w1 @ [r4], r4, v'))
                   else
                     (Wrapf err
                        (''response was successful but error occured recieved unexpected response body of type '' @ t),
                      j1, w1 @ [r4], r4, v)))))"

subsection \<open>Vocabulary of the statements\<close>

text \<open>
  The base media type of a response: its \<^verbatim>\<open>Content-Type\<close> value before the first
  semicolon.
\<close>

definition baseMediaType :: "response \<Rightarrow> string" where
  "baseMediaType res = takeWhile (\<lambda>c. c \<noteq> CHR '';'') (Header_Get (RespHeader res) ''Content-Type'')"

text \<open>
  The request \<open>r\<close> with the four headers of \<^verbatim>\<open>makeAPIrequest\<close> set, for a bearer token
  \<open>bearer\<close>.
\<close>

definition decorated :: "request \<Rightarrow> string \<Rightarrow> request" where
  "decorated r bearer =
     r\<lparr>Header := (Header r)
          (''Accept'' \<mapsto> [''application/json, application/xml;q=0.9''],
           ''Cache-Control'' \<mapsto>
             [''no-store, no-cache, must-revalidate, max-age=0, post-check=0, pre-check=0''],
           ''Strict-Transport-Security'' \<mapsto> [''max-age=31536000 ; includeSubDomains''],
           ''Authorization'' \<mapsto> [''Bearer '' @ bearer])\<rparr>"

text \<open>The request \<^verbatim>\<open>requestToken\<close> builds from a parsed endpoint \<open>u\<close>.\<close>

definition tokenRequest :: "'v env \<Rightarrow> Client \<Rightarrow> string \<Rightarrow> request" where
  "tokenRequest env j u =
     SetBasicAuth env \<lparr>Method = ''POST'', URL = u, Header = Map.empty\<rparr> (Username j) (Password j)"

subsection \<open>A mock server\<close>

text \<open>
  An environment to run the functions on, after the mock server of
  \<^verbatim>\<open>client_test.go\<close>: a resource that answers with JSON under the content type Go's
  server sniffs for it, and an error 500 "bad API call to ..." for every other path. It
  also serves a token, an XML resource, an HTML page, a JSON body with a field of the
  wrong type and a body that cannot be read; one host cannot be reached, and one host
  answers a token request with something that is not JSON. The result container has two
  fields.
\<close>

record MockResponse =
  mStatus :: string
  mCount :: int

definition mock_url_Parse :: "string \<Rightarrow> error + string" where
  "mock_url_Parse u =
     (case u of
        CHR '':'' # _ \<Rightarrow> Inl (Err ''parse: missing protocol scheme'')
      | _ \<Rightarrow> Inr u)"

definition mock_ok :: "string \<Rightarrow> string \<Rightarrow> response" where
  "mock_ok contentType body =
     \<lparr>Status = ''200 OK'', StatusCode = 200,
      RespHeader = [''Content-Type'' \<mapsto> [contentType]],
      Body = Reader body None\<rparr>"

definition mock_Do :: "http_Client \<Rightarrow> request list \<Rightarrow> request \<Rightarrow> error + response" where
  \<open>mock_Do c hist r =
     (if take 17 (URL r) = ''https://down.test'' then
        Inl (Err ''dial tcp: connection refused'')
      else if URL r = ''https://jamf.test/api/v1/auth/token'' then
        Inr (mock_ok ''application/json;charset=UTF-8''
               ''{"token":"abc","expires":"2030-01-01T00:00:00Z"}'')
      else if URL r = ''https://broken.test/api/v1/auth/token'' then
        Inr (mock_ok ''application/json;charset=UTF-8'' ''<html>'')
      else if URL r = ''https://jamf.test/JSSResource/mock/test'' then
        Inr (mock_ok ''text/plain; charset=utf-8'' ''{"status": "OK"}'')
      else if URL r = ''https://jamf.test/JSSResource/mock/xml'' then
        Inr (mock_ok ''text/xml;charset=UTF-8'' ''<mock><status>OK</status></mock>'')
      else if URL r = ''https://jamf.test/JSSResource/mock/html'' then
        Inr (mock_ok ''text/html; charset=utf-8'' ''<html>'')
      else if URL r = ''https://jamf.test/JSSResource/mock/partial'' then
        Inr (mock_ok ''application/json'' ''{"status": "OK", "count": "many"}'')
      else if URL r = ''https://jamf.test/JSSResource/mock/unreadable'' then
        Inr \<lparr>Status = ''502 Bad Gateway'', StatusCode = 502, RespHeader = Map.empty,
             Body = Reader [] (Some (Err ''unexpected EOF''))\<rparr>
      else
        Inr \<lparr>Status = ''500 Internal Server Error'', StatusCode = 500,
             RespHeader = [''Content-Type'' \<mapsto> [''text/plain; charset=utf-8'']],
             Body = Reader (''bad API call to '' @ URL r) None\<rparr>)\<close>

definition mock_time_Parse :: "string \<Rightarrow> error + int" where
  "mock_time_Parse s =
     (if s = ''2030-01-01T00:00:00Z'' then Inr (1893456000 * 1000000000)
      else if s = ''2029-12-31T23:02:00Z'' then Inr (1893452520 * 1000000000)
      else Inl (Err ''parsing time: cannot parse as RFC3339''))"

definition mock_json_Decode_token :: "reader \<Rightarrow> JamfToken \<Rightarrow> JamfToken \<times> error option" where
  \<open>mock_json_Decode_token body tok =
     (if body = Reader ''{"token":"abc","expires":"2030-01-01T00:00:00Z"}'' None then
        (tok\<lparr>token := ''abc'', expires := ''2030-01-01T00:00:00Z''\<rparr>, None)
      else (tok, Some (Err ''invalid character looking for beginning of value'')))\<close>

text \<open>
  As \<^verbatim>\<open>encoding/json\<close> does, the mock decoder fills the fields it can and then reports
  the field whose value has the wrong type.
\<close>

definition mock_json_Decode :: "reader \<Rightarrow> MockResponse \<Rightarrow> MockResponse \<times> error option" where
  \<open>mock_json_Decode body v =
     (if body = Reader ''{"status": "OK"}'' None then (v\<lparr>mStatus := ''OK''\<rparr>, None)
      else if body = Reader ''{"status": "OK", "count": "many"}'' None then
        (v\<lparr>mStatus := ''OK''\<rparr>,
         Some (Err ''json: cannot unmarshal string into Go struct field MockResponse.count of type int''))
      else (v, Some (Err ''invalid character looking for beginning of value'')))\<close>

definition mock_xml_Decode :: "reader \<Rightarrow> MockResponse \<Rightarrow> MockResponse \<times> error option" where
  "mock_xml_Decode body v =
     (if body = Reader ''<mock><status>OK</status></mock>'' None then (v\<lparr>mStatus := ''OK''\<rparr>, None)
      else (v, Some (Err ''EOF'')))"

text \<open>The clock of the mock is 2029-12-31T23:00:00Z.\<close>

definition mock_env :: "MockResponse env" where
  "mock_env =
     \<lparr>url_Parse = mock_url_Parse,
      basicAuth = (\<lambda>username password. ''dXNlcjpwYXNz''),
      Do = mock_Do,
      time_Parse = mock_time_Parse,
      time_Now = 1893452400 * 1000000000,
      json_Decode_token = mock_json_Decode_token,
      json_Decode = mock_json_Decode,
      xml_Decode = mock_xml_Decode\<rparr>"

text \<open>
  Clients of the mock server: \<open>mock_client d e\<close> talks to the host \<open>d\<close> and holds the token
  \<^verbatim>\<open>old\<close> with the expiration \<open>e\<close>.
\<close>

definition mock_client :: "string \<Rightarrow> string \<Rightarrow> Client" where
  "mock_client d e =
     \<lparr>Domain' = d, Username = ''user'', Password = ''pass'',
      Endpoint = d @ ''/JSSResource'',
      Token = \<lparr>token = ''old'', expires = e\<rparr>,
      api = defaultHTTPClient\<rparr>"

definition mock_request :: "string \<Rightarrow> request" where
  "mock_request u = \<lparr>Method = ''GET'', URL = u, Header = Map.empty\<rparr>"

definition mock_v :: MockResponse where
  "mock_v = \<lparr>mStatus = [], mCount = 0\<rparr>"

section \<open>Properties\<close>

subsection \<open>The library functions\<close>

lemma Split_not_Nil: "Split s sep \<noteq> []"
  by (induction s) (auto split: list.splits)

lemma hd_Split: "hd (Split s sep) = takeWhile (\<lambda>c. c \<noteq> sep) s"
  by (induction s) (auto split: list.splits simp: Split_not_Nil)

lemma contentType_hd:
  "hd (Split (Header_Get (RespHeader res) ''Content-Type'') CHR '';'') = baseMediaType res"
  by (simp add: hd_Split baseMediaType_def)

text \<open>The message of a wrapped error contains the end of its annotation.\<close>

lemma Wrap_mentions_suffix: "sublist s (Error (Wrap (p @ s) cause))"
  unfolding Error.simps append_assoc by (rule sublist_appendI)

text \<open>Saturation does not change the comparison with five minutes.\<close>

lemma time_Until_gt: "Minute * 5 < time_Until env t \<longleftrightarrow> Minute * 5 < t - time_Now env"
  by (auto simp: time_Until_def time_Sub_def Let_def Minute_def minDuration_def maxDuration_def)

lemma decorate_let:
  "(let r1 = r\<lparr>Header := Header_Set (Header r) ''Accept''
                                   ''application/json, application/xml;q=0.9''\<rparr>;
        r2 = r1\<lparr>Header := Header_Set (Header r1) ''Cache-Control''
                  ''no-store, no-cache, must-revalidate, max-age=0, post-check=0, pre-check=0''\<rparr>;
        r3 = r2\<lparr>Header := Header_Set (Header r2) ''Strict-Transport-Security''
                                   ''max-age=31536000 ; includeSubDomains''\<rparr>;
        r4 = r3\<lparr>Header := Header_Set (Header r3) ''Authorization'' (''Bearer '' @ bearer)\<rparr>
    in f r4) = f (decorated r bearer)"
  by (simp add: Let_def decorated_def Header_Set_def)

lemma decorated_simps [simp]:
  "Method (decorated r bearer) = Method r"
  "URL (decorated r bearer) = URL r"
  by (simp_all add: decorated_def)

lemma decorated_headers:
  "Header_Get (Header (decorated r bearer)) ''Accept'' = ''application/json, application/xml;q=0.9''"
  "Header_Get (Header (decorated r bearer)) ''Cache-Control'' =
     ''no-store, no-cache, must-revalidate, max-age=0, post-check=0, pre-check=0''"
  "Header_Get (Header (decorated r bearer)) ''Strict-Transport-Security'' =
     ''max-age=31536000 ; includeSubDomains''"
  "Header_Get (Header (decorated r bearer)) ''Authorization'' = ''Bearer '' @ bearer"
  by (simp_all add: decorated_def Header_Get_def)

subsection \<open>The paths of \<open>requestToken\<close>\<close>

lemma requestToken_url_fail:
  assumes "url_Parse env (Domain' j @ ''/api/v1/auth/token'') = Inl err"
  shows "requestToken env j w = (Some (Wrap ''error creating bearer token request'' err), j, w)"
  using assms by (simp add: requestToken_def NewRequestWithContext_def)

lemma requestToken_transport_fail:
  assumes "url_Parse env (Domain' j @ ''/api/v1/auth/token'') = Inr u"
    and "Do env (api j) w (tokenRequest env j u) = Inl err"
  shows "requestToken env j w =
           (Some (Wrap (''error making POST request to '' @ u) err), j, w @ [tokenRequest env j u])"
  using assms
  by (simp add: requestToken_def Let_def NewRequestWithContext_def tokenRequest_def
      SetBasicAuth_def)

lemma requestToken_rejected:
  assumes "url_Parse env (Domain' j @ ''/api/v1/auth/token'') = Inr u"
    and "Do env (api j) w (tokenRequest env j u) = Inr res"
    and "StatusCode res \<noteq> 200" and "StatusCode res \<noteq> 201"
    and "ReadAll (Body res) = (body, rerr)"
  shows "requestToken env j w =
           (Some (case rerr of
                    None \<Rightarrow> Err (''request error: '' @ body)
                  | Some cause \<Rightarrow>
                      Wrap (''request error: '' @ Status res @
                            ''. unable to retrieve plain text response: '' @ Error cause) cause),
            j, w @ [tokenRequest env j u])"
  using assms
  by (simp add: requestToken_def Let_def NewRequestWithContext_def tokenRequest_def
      SetBasicAuth_def split: option.splits)

lemma requestToken_accepted:
  assumes "url_Parse env (Domain' j @ ''/api/v1/auth/token'') = Inr u"
    and "Do env (api j) w (tokenRequest env j u) = Inr res"
    and "StatusCode res = 200 \<or> StatusCode res = 201"
  shows "requestToken env j w =
           (Wrapf (snd (json_Decode_token env (Body res) (Token j)))
              ''response was successful but error occured decoding JSON token response'',
            j\<lparr>Token := fst (json_Decode_token env (Body res) (Token j))\<rparr>,
            w @ [tokenRequest env j u])"
  using assms
  by (auto simp add: requestToken_def Let_def NewRequestWithContext_def tokenRequest_def
      SetBasicAuth_def split: prod.splits option.splits)

text \<open>The paths are all the paths there are.\<close>

lemma requestToken_cases:
  obtains (url) err where "url_Parse env (Domain' j @ ''/api/v1/auth/token'') = Inl err"
  | (transport) u err where "url_Parse env (Domain' j @ ''/api/v1/auth/token'') = Inr u"
      and "Do env (api j) w (tokenRequest env j u) = Inl err"
  | (rejected) u res where "url_Parse env (Domain' j @ ''/api/v1/auth/token'') = Inr u"
      and "Do env (api j) w (tokenRequest env j u) = Inr res"
      and "StatusCode res \<noteq> 200" and "StatusCode res \<noteq> 201"
  | (accepted) u res where "url_Parse env (Domain' j @ ''/api/v1/auth/token'') = Inr u"
      and "Do env (api j) w (tokenRequest env j u) = Inr res"
      and "StatusCode res = 200 \<or> StatusCode res = 201"
proof (cases "url_Parse env (Domain' j @ ''/api/v1/auth/token'')")
  case (Inl err)
  then show ?thesis by (rule url)
next
  case (Inr u)
  show ?thesis
  proof (cases "Do env (api j) w (tokenRequest env j u)")
    case (Inl err)
    with Inr show ?thesis by (rule transport)
  next
    case res: (Inr res)
    show ?thesis
    proof (cases "StatusCode res = 200 \<or> StatusCode res = 201")
      case True
      with Inr res show ?thesis by (rule accepted)
    next
      case False
      then have "StatusCode res \<noteq> 200" and "StatusCode res \<noteq> 201" by auto
      with Inr res show ?thesis by (rule rejected)
    qed
  qed
qed

subsection \<open>The paths of \<open>checkTokenExpiration\<close>\<close>

lemma checkTokenExpiration_valid:
  assumes "expires (Token j) \<noteq> []"
    and "time_Parse env (expires (Token j)) = Inr t"
    and "Minute * 5 < t - time_Now env"
  shows "checkTokenExpiration env j w = (None, j, w)"
  using assms by (simp add: checkTokenExpiration_def time_Until_gt)

lemma checkTokenExpiration_renew:
  assumes "expires (Token j) = [] \<or>
           (time_Parse env (expires (Token j)) = Inr t \<and> t - time_Now env \<le> Minute * 5)"
  shows "checkTokenExpiration env j w =
           (Wrapf (fst (requestToken env j w)) ''error requesting new bearer token'',
            snd (requestToken env j w))"
  using assms
  by (auto simp add: checkTokenExpiration_def Let_def time_Until_gt
      split: prod.splits option.splits)

lemma checkTokenExpiration_parse_fail:
  assumes "expires (Token j) \<noteq> []"
    and "time_Parse env (expires (Token j)) = Inl err"
  shows "checkTokenExpiration env j w =
           (Some (Wrap (''error parsing the bearer token expiration date: '' @ expires (Token j)) err),
            j, w)"
  using assms by (simp add: checkTokenExpiration_def)

subsection \<open>The paths of \<open>makeAPIrequest\<close>\<close>

lemma makeAPIrequest_guard_fail:
  assumes "checkTokenExpiration env j w = (Some err, j1, w1)"
  shows "makeAPIrequest env j w r v =
           (Some (Wrap ''error checking for bearer token expiration'' err), j1, w1, r, v)"
  using assms by (simp add: makeAPIrequest_def)

lemma makeAPIrequest_transport_fail:
  assumes "checkTokenExpiration env j w = (None, j1, w1)"
    and "Do env (api j1) w1 (decorated r (token (Token j1))) = Inl err"
  shows "makeAPIrequest env j w r v =
           (Some (Wrap (''error making '' @ Method r @ '' request to '' @ URL r) err),
            j1, w1 @ [decorated r (token (Token j1))], decorated r (token (Token j1)), v)"
  unfolding makeAPIrequest_def assms(1) prod.case option.case decorate_let
  using assms(2) by simp

lemma makeAPIrequest_rejected:
  assumes "checkTokenExpiration env j w = (None, j1, w1)"
    and "Do env (api j1) w1 (decorated r (token (Token j1))) = Inr res"
    and "StatusCode res \<noteq> 200" and "StatusCode res \<noteq> 201"
    and "ReadAll (Body res) = (body, rerr)"
  shows "makeAPIrequest env j w r v =
           (Some (case rerr of
                    None \<Rightarrow> Err (''request error: '' @ body)
                  | Some cause \<Rightarrow>
                      Wrap (''request error: '' @ Status res @
                            ''. unable to retrieve plain text response: '' @ Error cause) cause),
            j1, w1 @ [decorated r (token (Token j1))], decorated r (token (Token j1)), v)"
  unfolding makeAPIrequest_def assms(1) prod.case option.case decorate_let
  using assms(2-) by (simp split: option.splits)

lemma makeAPIrequest_xml:
  assumes "checkTokenExpiration env j w = (None, j1, w1)"
    and "Do env (api j1) w1 (decorated r (token (Token j1))) = Inr res"
    and "StatusCode res = 200 \<or> StatusCode res = 201"
    and "baseMediaType res = ''text/xml'' \<or> baseMediaType res = ''application/xml''"
  shows "makeAPIrequest env j w r v =
           (Wrapf (snd (xml_Decode env (Body res) v))
              (''response was successful but error occured decoding response body of type '' @
               baseMediaType res),
            j1, w1 @ [decorated r (token (Token j1))], decorated r (token (Token j1)),
            fst (xml_Decode env (Body res) v))"
  unfolding makeAPIrequest_def assms(1) prod.case option.case decorate_let
  using assms(2-)
  by (cases "xml_Decode env (Body res) v"; cases "snd (xml_Decode env (Body res) v)")
     (auto simp add: Let_def contentType_hd)

lemma makeAPIrequest_json:
  assumes "checkTokenExpiration env j w = (None, j1, w1)"
    and "Do env (api j1) w1 (decorated r (token (Token j1))) = Inr res"
    and "StatusCode res = 200 \<or> StatusCode res = 201"
    and "baseMediaType res = ''text/json'' \<or> baseMediaType res = ''application/json'' \<or>
         baseMediaType res = ''text/plain''"
  shows "makeAPIrequest env j w r v =
           (Wrapf (snd (json_Decode env (Body res) v))
              (''response was successful but error occured error decoding response body of type '' @
               baseMediaType res),
            j1, w1 @ [decorated r (token (Token j1))], decorated r (token (Token j1)),
            fst (json_Decode env (Body res) v))"
  unfolding makeAPIrequest_def assms(1) prod.case option.case decorate_let
  using assms(2-)
  by (cases "json_Decode env (Body res) v"; cases "snd (json_Decode env (Body res) v)")
     (auto simp add: Let_def contentType_hd)

lemma makeAPIrequest_other:
  assumes "checkTokenExpiration env j w = (None, j1, w1)"
    and "Do env (api j1) w1 (decorated r (token (Token j1))) = Inr res"
    and "StatusCode res = 200 \<or> StatusCode res = 201"
    and "baseMediaType res \<noteq> ''text/xml''" and "baseMediaType res \<noteq> ''application/xml''"
    and "baseMediaType res \<noteq> ''text/json''" and "baseMediaType res \<noteq> ''application/json''"
    and "baseMediaType res \<noteq> ''text/plain''"
  shows "makeAPIrequest env j w r v =
           (None, j1, w1 @ [decorated r (token (Token j1))], decorated r (token (Token j1)), v)"
  unfolding makeAPIrequest_def assms(1) prod.case option.case decorate_let
  using assms(2-) by (auto simp add: Let_def contentType_hd)

text \<open>
  Once the guard has passed, the client is the one the guard left, the log has grown by
  the decorated request, and the request is returned decorated, on every path.
\<close>

lemma makeAPIrequest_passed:
  assumes "checkTokenExpiration env j w = (None, j1, w1)"
  shows "\<exists>e v'. makeAPIrequest env j w r v =
           (e, j1, w1 @ [decorated r (token (Token j1))], decorated r (token (Token j1)), v')"
proof (cases "Do env (api j1) w1 (decorated r (token (Token j1)))")
  case (Inl err)
  from makeAPIrequest_transport_fail [OF assms this] show ?thesis by blast
next
  case (Inr res)
  obtain body rerr where rd: "ReadAll (Body res) = (body, rerr)"
    by (cases "ReadAll (Body res)")
  show ?thesis
  proof (cases "StatusCode res = 200 \<or> StatusCode res = 201")
    case False
    then have "StatusCode res \<noteq> 200" and "StatusCode res \<noteq> 201" by auto
    from makeAPIrequest_rejected [OF assms Inr this rd] show ?thesis by blast
  next
    case ok: True
    show ?thesis
    proof (cases "baseMediaType res = ''text/xml'' \<or> baseMediaType res = ''application/xml''")
      case True
      from makeAPIrequest_xml [OF assms Inr ok this] show ?thesis by blast
    next
      case nx: False
      show ?thesis
      proof (cases "baseMediaType res = ''text/json'' \<or> baseMediaType res = ''application/json'' \<or>
                    baseMediaType res = ''text/plain''")
        case True
        from makeAPIrequest_json [OF assms Inr ok this] show ?thesis by blast
      next
        case False
        with nx makeAPIrequest_other [OF assms Inr ok] show ?thesis by blast
      qed
    qed
  qed
qed

subsection \<open>The mock server\<close>

lemma mock_valid:
  "checkTokenExpiration mock_env (mock_client d ''2030-01-01T00:00:00Z'') w =
     (None, mock_client d ''2030-01-01T00:00:00Z'', w)"
  by (rule checkTokenExpiration_valid [where t = "1893456000 * 1000000000"])
     (simp_all add: mock_client_def mock_env_def mock_time_Parse_def Minute_def)

lemma mock_client_simps [simp]:
  "Domain' (mock_client d e) = d"
  "Username (mock_client d e) = ''user''"
  "Password (mock_client d e) = ''pass''"
  "Endpoint (mock_client d e) = d @ ''/JSSResource''"
  "Token (mock_client d e) = \<lparr>token = ''old'', expires = e\<rparr>"
  "api (mock_client d e) = defaultHTTPClient"
  by (simp_all add: mock_client_def)

lemma mock_env_simps [simp]:
  "url_Parse mock_env = mock_url_Parse"
  "Do mock_env = mock_Do"
  "time_Parse mock_env = mock_time_Parse"
  "time_Now mock_env = 1893452400 * 1000000000"
  "json_Decode_token mock_env = mock_json_Decode_token"
  "json_Decode mock_env = mock_json_Decode"
  "xml_Decode mock_env = mock_xml_Decode"
  by (simp_all add: mock_env_def)

lemma mock_ok_simps [simp]:
  "StatusCode (mock_ok ct body) = 200"
  "Status (mock_ok ct body) = ''200 OK''"
  "Body (mock_ok ct body) = Reader body None"
  "Header_Get (RespHeader (mock_ok ct body)) ''Content-Type'' = ct"
  by (simp_all add: mock_ok_def Header_Get_def)

lemma mock_Do_resource:
  "mock_Do c hist (decorated (mock_request ''https://jamf.test/JSSResource/mock/test'') bearer) =
     Inr (mock_ok ''text/plain; charset=utf-8'' ''{\"status\": \"OK\"}'')"
  "mock_Do c hist (decorated (mock_request ''https://jamf.test/JSSResource/mock/xml'') bearer) =
     Inr (mock_ok ''text/xml;charset=UTF-8'' ''<mock><status>OK</status></mock>'')"
  "mock_Do c hist (decorated (mock_request ''https://jamf.test/JSSResource/mock/html'') bearer) =
     Inr (mock_ok ''text/html; charset=utf-8'' ''<html>'')"
  "mock_Do c hist (decorated (mock_request ''https://jamf.test/JSSResource/mock/partial'') bearer) =
     Inr (mock_ok ''application/json'' ''{\"status\": \"OK\", \"count\": \"many\"}'')"
  "mock_Do c hist (decorated (mock_request ''https://jamf.test/JSSResource/mock/unreadable'') bearer) =
     Inr \<lparr>Status = ''502 Bad Gateway'', StatusCode = 502, RespHeader = Map.empty,
          Body = Reader [] (Some (Err ''unexpected EOF''))\<rparr>"
  "mock_Do c hist (decorated (mock_request ''https://jamf.test/JSSResource/nothing'') bearer) =
     Inr \<lparr>Status = ''500 Internal Server Error'', StatusCode = 500,
          RespHeader = [''Content-Type'' \<mapsto> [''text/plain; charset=utf-8'']],
          Body = Reader ''bad API call to https://jamf.test/JSSResource/nothing'' None\<rparr>"
  "mock_Do c hist (decorated (mock_request ''https://down.test/JSSResource/mock/test'') bearer) =
     Inl (Err ''dial tcp: connection refused'')"
  by (simp_all add: mock_Do_def mock_request_def)

lemma mock_url [simp]: "mock_url_Parse (CHR ''h'' # p) = Inr (CHR ''h'' # p)"
  by (simp add: mock_url_Parse_def)

lemma mock_Do_token:
  "mock_Do c hist (tokenRequest mock_env j ''https://jamf.test/api/v1/auth/token'') =
     Inr (mock_ok ''application/json;charset=UTF-8''
            ''{\"token\":\"abc\",\"expires\":\"2030-01-01T00:00:00Z\"}'')"
  "mock_Do c hist (tokenRequest mock_env j ''https://broken.test/api/v1/auth/token'') =
     Inr (mock_ok ''application/json;charset=UTF-8'' ''<html>'')"
  "mock_Do c hist (tokenRequest mock_env j ''https://other.test/api/v1/auth/token'') =
     Inr \<lparr>Status = ''500 Internal Server Error'', StatusCode = 500,
          RespHeader = [''Content-Type'' \<mapsto> [''text/plain; charset=utf-8'']],
          Body = Reader ''bad API call to https://other.test/api/v1/auth/token'' None\<rparr>"
  "mock_Do c hist (tokenRequest mock_env j ''https://down.test/api/v1/auth/token'') =
     Inl (Err ''dial tcp: connection refused'')"
  by (simp_all add: mock_Do_def tokenRequest_def SetBasicAuth_def)

lemma mock_baseMediaType:
  "baseMediaType (mock_ok ''text/plain; charset=utf-8'' body) = ''text/plain''"
  "baseMediaType (mock_ok ''text/xml;charset=UTF-8'' body) = ''text/xml''"
  "baseMediaType (mock_ok ''text/html; charset=utf-8'' body) = ''text/html''"
  "baseMediaType (mock_ok ''application/json'' body) = ''application/json''"
  by (simp_all add: baseMediaType_def)

subsection \<open>The claims\<close>

text \<open>
  C1. The claim: for every response whose base media type is none of \<^verbatim>\<open>text/xml\<close>,
  \<^verbatim>\<open>application/xml\<close>, \<^verbatim>\<open>text/json\<close>, \<^verbatim>\<open>application/json\<close>, \<^verbatim>\<open>text/plain\<close>,
  \<^verbatim>\<open>makeAPIrequest\<close> fails with an "unexpected response body type" error naming the type.
  The code does not: the default branch wraps the variable \<^verbatim>\<open>err\<close>, which is nil there,
  and wrapping nil gives nil. On the mock server's HTML page (status 200, content type
  \<^verbatim>\<open>text/html; charset=utf-8\<close>) the call returns nil and leaves the container as it was.
\<close>

theorem makeAPIrequest_unexpected_type_returns_nil:
  "mock_Do defaultHTTPClient []
     (decorated (mock_request ''https://jamf.test/JSSResource/mock/html'') ''old'') =
     Inr (mock_ok ''text/html; charset=utf-8'' ''<html>'') \<and>
   baseMediaType (mock_ok ''text/html; charset=utf-8'' ''<html>'') = ''text/html'' \<and>
   makeAPIrequest mock_env (mock_client ''https://jamf.test'' ''2030-01-01T00:00:00Z'') []
     (mock_request ''https://jamf.test/JSSResource/mock/html'') mock_v =
     (None, mock_client ''https://jamf.test'' ''2030-01-01T00:00:00Z'',
      [decorated (mock_request ''https://jamf.test/JSSResource/mock/html'') ''old''],
      decorated (mock_request ''https://jamf.test/JSSResource/mock/html'') ''old'', mock_v)"
proof -
  let ?c = "mock_client ''https://jamf.test'' ''2030-01-01T00:00:00Z''"
  let ?r = "mock_request ''https://jamf.test/JSSResource/mock/html''"
  let ?res = "mock_ok ''text/html; charset=utf-8'' ''<html>''"
  have d: "Do mock_env (api ?c) [] (decorated ?r (token (Token ?c))) = Inr ?res"
    by (simp add: mock_Do_resource)
  have t: "baseMediaType ?res = ''text/html''"
    by (simp add: mock_baseMediaType)
  have "makeAPIrequest mock_env ?c [] ?r mock_v =
          (None, ?c, [] @ [decorated ?r (token (Token ?c))], decorated ?r (token (Token ?c)), mock_v)"
    by (rule makeAPIrequest_other [OF mock_valid d]) (simp_all add: t)
  then show ?thesis
    by (simp add: mock_Do_resource t)
qed

text \<open>
  The same on every environment: after a 200 or 201 response of another media type,
  \<^verbatim>\<open>makeAPIrequest\<close> returns nil.
\<close>

lemma makeAPIrequest_unexpected_type_nil:
  assumes "checkTokenExpiration env j w = (None, j1, w1)"
    and "Do env (api j1) w1 (decorated r (token (Token j1))) = Inr res"
    and "StatusCode res = 200 \<or> StatusCode res = 201"
    and "baseMediaType res \<noteq> ''text/xml''" and "baseMediaType res \<noteq> ''application/xml''"
    and "baseMediaType res \<noteq> ''text/json''" and "baseMediaType res \<noteq> ''application/json''"
    and "baseMediaType res \<noteq> ''text/plain''"
  shows "fst (makeAPIrequest env j w r v) = None"
  by (simp add: makeAPIrequest_other [OF assms])

text \<open>
  C9. \<^verbatim>\<open>NewClient\<close> with an empty domain, user name or password returns the nil client and
  the configuration error, and executes no request; with the three non-empty it returns a
  client and no error, executes no request, sets the endpoint to the domain followed by
  \<^verbatim>\<open>/JSSResource\<close>, starts with an empty token, and uses the transport it is given, or
  one with a timeout of one minute (60 * 10^9 nanoseconds) when it is given none.
\<close>

theorem NewClient_spec:
  "(domain = [] \<or> username = [] \<or> password = [] \<longrightarrow>
      NewClient domain username password client w =
        (None, Some (Err ''you must provide a valid Jamf domain, username, and password''), w)) \<and>
   (domain \<noteq> [] \<and> username \<noteq> [] \<and> password \<noteq> [] \<longrightarrow>
      (\<exists>j. NewClient domain username password client w = (Some j, None, w) \<and>
           Domain' j = domain \<and> Username j = username \<and> Password j = password \<and>
           Endpoint j = domain @ ''/JSSResource'' \<and>
           Token j = \<lparr>token = [], expires = []\<rparr> \<and>
           api j = (case client of None \<Rightarrow> \<lparr>Timeout = 60 * 1000000000\<rparr> | Some c \<Rightarrow> c)))"
  by (auto simp add: NewClient_def defaultHTTPClient_def Minute_def split: option.splits)

theorem NewClient_spec_witness:
  "NewClient ''https://jamf.test'' [] ''pass'' None [] =
     (None, Some (Err ''you must provide a valid Jamf domain, username, and password''), []) \<and>
   NewClient ''https://jamf.test'' ''user'' ''pass'' None [] =
     (Some \<lparr>Domain' = ''https://jamf.test'', Username = ''user'', Password = ''pass'',
            Endpoint = ''https://jamf.test/JSSResource'',
            Token = \<lparr>token = [], expires = []\<rparr>,
            api = \<lparr>Timeout = 60000000000\<rparr>\<rparr>, None, [])"
  using NewClient_spec [of "''https://jamf.test''" "[]" "''pass''" None "[]"]
    NewClient_spec [of "''https://jamf.test''" "''user''" "''pass''" None "[]"]
  by auto

text \<open>
  C5. When the stored expiration is not empty and does not parse, \<^verbatim>\<open>checkTokenExpiration\<close>
  returns the parse error wrapped in a message that ends with the stored expiration, and
  leaves the client and the log as they were: no request is executed, no token is
  requested.
\<close>

theorem checkTokenExpiration_bad_timestamp:
  assumes "expires (Token j) \<noteq> []"
    and "time_Parse env (expires (Token j)) = Inl err"
  shows "checkTokenExpiration env j w =
           (Some (Wrap (''error parsing the bearer token expiration date: '' @ expires (Token j)) err),
            j, w) \<and>
         sublist (expires (Token j))
           (Error (Wrap (''error parsing the bearer token expiration date: '' @ expires (Token j)) err))"
  using assms
  by (intro conjI checkTokenExpiration_parse_fail Wrap_mentions_suffix)

theorem checkTokenExpiration_bad_timestamp_witness:
  "checkTokenExpiration mock_env (mock_client ''https://jamf.test'' ''yesterday'') [] =
     (Some (Wrap ''error parsing the bearer token expiration date: yesterday''
              (Err ''parsing time: cannot parse as RFC3339'')),
      mock_client ''https://jamf.test'' ''yesterday'', [])"
proof -
  have "time_Parse mock_env (expires (Token (mock_client ''https://jamf.test'' ''yesterday''))) =
          Inl (Err ''parsing time: cannot parse as RFC3339'')"
    by (simp add: mock_time_Parse_def)
  from checkTokenExpiration_bad_timestamp [OF _ this, of "[]"] show ?thesis
    by simp
qed

text \<open>
  C10. When \<^verbatim>\<open>requestToken\<close> fails because the transport fails or because the status
  is neither 200 nor 201, it returns an error and the client is as it was, token and
  expiration included. The token is only ever changed by the JSON decoder, after a
  response with status 200 or 201.
\<close>

theorem requestToken_failure_keeps_token:
  assumes "requestToken env j w = (e, j', w')"
  shows "(url_Parse env (Domain' j @ ''/api/v1/auth/token'') = Inr u \<and>
          Do env (api j) w (tokenRequest env j u) = Inl err \<longrightarrow>
            e \<noteq> None \<and> j' = j \<and>
            token (Token j') = token (Token j) \<and> expires (Token j') = expires (Token j)) \<and>
         (url_Parse env (Domain' j @ ''/api/v1/auth/token'') = Inr u \<and>
          Do env (api j) w (tokenRequest env j u) = Inr res \<and>
          StatusCode res \<noteq> 200 \<and> StatusCode res \<noteq> 201 \<longrightarrow>
            e \<noteq> None \<and> j' = j \<and>
            token (Token j') = token (Token j) \<and> expires (Token j') = expires (Token j)) \<and>
         (Token j' \<noteq> Token j \<longrightarrow>
            (\<exists>u res. url_Parse env (Domain' j @ ''/api/v1/auth/token'') = Inr u \<and>
                     Do env (api j) w (tokenRequest env j u) = Inr res \<and>
                     (StatusCode res = 200 \<or> StatusCode res = 201) \<and>
                     Token j' = fst (json_Decode_token env (Body res) (Token j))))"
proof (intro conjI impI)
  assume "Token j' \<noteq> Token j"
  then show "\<exists>u res. url_Parse env (Domain' j @ ''/api/v1/auth/token'') = Inr u \<and>
                     Do env (api j) w (tokenRequest env j u) = Inr res \<and>
                     (StatusCode res = 200 \<or> StatusCode res = 201) \<and>
                     Token j' = fst (json_Decode_token env (Body res) (Token j))"
  proof (cases rule: requestToken_cases [where env = env and j = j and w = w])
    case (url err)
    from requestToken_url_fail [OF this, of w] assms \<open>Token j' \<noteq> Token j\<close>
    show ?thesis by simp
  next
    case (transport u err)
    from requestToken_transport_fail [OF this] assms \<open>Token j' \<noteq> Token j\<close>
    show ?thesis by simp
  next
    case (rejected u res)
    obtain body rerr where "ReadAll (Body res) = (body, rerr)"
      by (cases "ReadAll (Body res)")
    from requestToken_rejected [OF rejected this] assms \<open>Token j' \<noteq> Token j\<close>
    show ?thesis by simp
  next
    case (accepted u res)
    from requestToken_accepted [OF this] assms
    have "Token j' = fst (json_Decode_token env (Body res) (Token j))" by simp
    with accepted show ?thesis by blast
  qed
next
  assume a: "url_Parse env (Domain' j @ ''/api/v1/auth/token'') = Inr u \<and>
             Do env (api j) w (tokenRequest env j u) = Inl err"
  then have "requestToken env j w =
               (Some (Wrap (''error making POST request to '' @ u) err), j, w @ [tokenRequest env j u])"
    by (intro requestToken_transport_fail) simp_all
  with assms have "e \<noteq> None \<and> j' = j" by auto
  then show "e \<noteq> None" and "j' = j" and "token (Token j') = token (Token j)"
    and "expires (Token j') = expires (Token j)" by simp_all
next
  assume a: "url_Parse env (Domain' j @ ''/api/v1/auth/token'') = Inr u \<and>
             Do env (api j) w (tokenRequest env j u) = Inr res \<and>
             StatusCode res \<noteq> 200 \<and> StatusCode res \<noteq> 201"
  obtain body rerr where rd: "ReadAll (Body res) = (body, rerr)"
    by (cases "ReadAll (Body res)")
  from a have "fst (requestToken env j w) \<noteq> None \<and> fst (snd (requestToken env j w)) = j"
    by (simp add: requestToken_rejected [OF _ _ _ _ rd])
  with assms have "e \<noteq> None \<and> j' = j" by auto
  then show "e \<noteq> None" and "j' = j" and "token (Token j') = token (Token j)"
    and "expires (Token j') = expires (Token j)" by simp_all
qed

theorem requestToken_failure_keeps_token_witness:
  "fst (requestToken mock_env (mock_client ''https://down.test'' []) []) \<noteq> None \<and>
   fst (snd (requestToken mock_env (mock_client ''https://down.test'' []) [])) =
     mock_client ''https://down.test'' [] \<and>
   fst (requestToken mock_env (mock_client ''https://other.test'' []) []) \<noteq> None \<and>
   fst (snd (requestToken mock_env (mock_client ''https://other.test'' []) [])) =
     mock_client ''https://other.test'' []"
proof -
  let ?d = "mock_client ''https://down.test'' []"
  let ?o = "mock_client ''https://other.test'' []"
  obtain e j' w' where d: "requestToken mock_env ?d [] = (e, j', w')"
    by (cases "requestToken mock_env ?d []")
  obtain e2 j2 w2 where o: "requestToken mock_env ?o [] = (e2, j2, w2)"
    by (cases "requestToken mock_env ?o []")
  have ud: "url_Parse mock_env (Domain' ?d @ ''/api/v1/auth/token'') =
              Inr ''https://down.test/api/v1/auth/token''"
    and uo: "url_Parse mock_env (Domain' ?o @ ''/api/v1/auth/token'') =
              Inr ''https://other.test/api/v1/auth/token''"
    by simp_all
  have td: "Do mock_env (api ?d) [] (tokenRequest mock_env ?d ''https://down.test/api/v1/auth/token'') =
              Inl (Err ''dial tcp: connection refused'')"
    by (simp add: mock_Do_token)
  have to: "Do mock_env (api ?o) [] (tokenRequest mock_env ?o ''https://other.test/api/v1/auth/token'') =
              Inr \<lparr>Status = ''500 Internal Server Error'', StatusCode = 500,
                   RespHeader = [''Content-Type'' \<mapsto> [''text/plain; charset=utf-8'']],
                   Body = Reader ''bad API call to https://other.test/api/v1/auth/token'' None\<rparr>"
    by (simp add: mock_Do_token)
  from requestToken_failure_keeps_token [OF d, of "''https://down.test/api/v1/auth/token''"
      "Err ''dial tcp: connection refused''"] ud td
  have "e \<noteq> None \<and> j' = ?d" by blast
  moreover
  from requestToken_failure_keeps_token [OF o, of "''https://other.test/api/v1/auth/token''" _
      "\<lparr>Status = ''500 Internal Server Error'', StatusCode = 500,
        RespHeader = [''Content-Type'' \<mapsto> [''text/plain; charset=utf-8'']],
        Body = Reader ''bad API call to https://other.test/api/v1/auth/token'' None\<rparr>"] uo to
  have "e2 \<noteq> None \<and> j2 = ?o" by simp
  ultimately show ?thesis
    using d o by simp
qed

text \<open>
  C8. After a response to the token request with status 200 or 201: when the JSON decoder
  reads the token \<open>T\<close> and the expiration \<open>E\<close> from the body without an error (the body is
  valid JSON for them), \<^verbatim>\<open>requestToken\<close> returns nil and the client holds the token \<open>T\<close>
  with the expiration \<open>E\<close>; when the decoder reports an error, \<^verbatim>\<open>requestToken\<close> returns
  that error under the message "response was successful but error occured decoding JSON
  token response". No call of \<^verbatim>\<open>requestToken\<close> that fails before decoding (the request
  cannot be built, the transport fails, the status is neither 200 nor 201) returns an error
  with that message.
\<close>

theorem requestToken_success:
  assumes "url_Parse env (Domain' j @ ''/api/v1/auth/token'') = Inr u"
    and "Do env (api j) w (tokenRequest env j u) = Inr res"
    and "StatusCode res = 200 \<or> StatusCode res = 201"
  shows "(json_Decode_token env (Body res) (Token j) = (\<lparr>token = T, expires = E\<rparr>, None) \<longrightarrow>
            requestToken env j w =
              (None, j\<lparr>Token := \<lparr>token = T, expires = E\<rparr>\<rparr>, w @ [tokenRequest env j u])) \<and>
         (json_Decode_token env (Body res) (Token j) = (tok, Some cause) \<longrightarrow>
            fst (requestToken env j w) =
              Some (Wrap ''response was successful but error occured decoding JSON token response''
                      cause)) \<and>
         ((url_Parse env2 (Domain' j2 @ ''/api/v1/auth/token'') = Inl err2 \<or>
           url_Parse env2 (Domain' j2 @ ''/api/v1/auth/token'') = Inr u2 \<and>
             Do env2 (api j2) w2 (tokenRequest env2 j2 u2) = Inl err2 \<or>
           url_Parse env2 (Domain' j2 @ ''/api/v1/auth/token'') = Inr u2 \<and>
             Do env2 (api j2) w2 (tokenRequest env2 j2 u2) = Inr res2 \<and>
             StatusCode res2 \<noteq> 200 \<and> StatusCode res2 \<noteq> 201) \<longrightarrow>
            fst (requestToken env2 j2 w2) \<noteq>
              Some (Wrap ''response was successful but error occured decoding JSON token response''
                      cause2))"
proof (intro conjI impI)
  assume "json_Decode_token env (Body res) (Token j) = (\<lparr>token = T, expires = E\<rparr>, None)"
  then show "requestToken env j w =
               (None, j\<lparr>Token := \<lparr>token = T, expires = E\<rparr>\<rparr>, w @ [tokenRequest env j u])"
    by (simp add: requestToken_accepted [OF assms])
next
  assume "json_Decode_token env (Body res) (Token j) = (tok, Some cause)"
  then show "fst (requestToken env j w) =
               Some (Wrap ''response was successful but error occured decoding JSON token response''
                       cause)"
    by (simp add: requestToken_accepted [OF assms])
next
  obtain body rerr where rd: "ReadAll (Body res2) = (body, rerr)"
    by (cases "ReadAll (Body res2)")
  assume "url_Parse env2 (Domain' j2 @ ''/api/v1/auth/token'') = Inl err2 \<or>
          url_Parse env2 (Domain' j2 @ ''/api/v1/auth/token'') = Inr u2 \<and>
            Do env2 (api j2) w2 (tokenRequest env2 j2 u2) = Inl err2 \<or>
          url_Parse env2 (Domain' j2 @ ''/api/v1/auth/token'') = Inr u2 \<and>
            Do env2 (api j2) w2 (tokenRequest env2 j2 u2) = Inr res2 \<and>
            StatusCode res2 \<noteq> 200 \<and> StatusCode res2 \<noteq> 201"
  then show "fst (requestToken env2 j2 w2) \<noteq>
               Some (Wrap ''response was successful but error occured decoding JSON token response''
                       cause2)"
  proof (elim disjE conjE)
    assume "url_Parse env2 (Domain' j2 @ ''/api/v1/auth/token'') = Inl err2"
    then show ?thesis by (simp add: requestToken_url_fail)
  next
    assume "url_Parse env2 (Domain' j2 @ ''/api/v1/auth/token'') = Inr u2"
      and "Do env2 (api j2) w2 (tokenRequest env2 j2 u2) = Inl err2"
    then show ?thesis by (simp add: requestToken_transport_fail)
  next
    assume "url_Parse env2 (Domain' j2 @ ''/api/v1/auth/token'') = Inr u2"
      and "Do env2 (api j2) w2 (tokenRequest env2 j2 u2) = Inr res2"
      and "StatusCode res2 \<noteq> 200" and "StatusCode res2 \<noteq> 201"
    from requestToken_rejected [OF this rd] show ?thesis
      by (simp split: option.splits)
  qed
qed

theorem requestToken_success_witness:
  "requestToken mock_env (mock_client ''https://jamf.test'' []) [] =
     (None,
      (mock_client ''https://jamf.test'' [])
        \<lparr>Token := \<lparr>token = ''abc'', expires = ''2030-01-01T00:00:00Z''\<rparr>\<rparr>,
      [tokenRequest mock_env (mock_client ''https://jamf.test'' [])
         ''https://jamf.test/api/v1/auth/token'']) \<and>
   fst (requestToken mock_env (mock_client ''https://broken.test'' []) []) =
     Some (Wrap ''response was successful but error occured decoding JSON token response''
             (Err ''invalid character looking for beginning of value'')) \<and>
   fst (requestToken mock_env (mock_client ''https://down.test'' []) []) \<noteq>
     Some (Wrap ''response was successful but error occured decoding JSON token response''
             (Err ''invalid character looking for beginning of value''))"
proof -
  let ?j = "mock_client ''https://jamf.test'' []"
  let ?b = "mock_client ''https://broken.test'' []"
  let ?d = "mock_client ''https://down.test'' []"
  have uj: "url_Parse mock_env (Domain' ?j @ ''/api/v1/auth/token'') =
              Inr ''https://jamf.test/api/v1/auth/token''"
    and ub: "url_Parse mock_env (Domain' ?b @ ''/api/v1/auth/token'') =
              Inr ''https://broken.test/api/v1/auth/token''"
    and ud: "url_Parse mock_env (Domain' ?d @ ''/api/v1/auth/token'') =
              Inr ''https://down.test/api/v1/auth/token''"
    by simp_all
  have tj: "Do mock_env (api ?j) [] (tokenRequest mock_env ?j ''https://jamf.test/api/v1/auth/token'') =
              Inr (mock_ok ''application/json;charset=UTF-8''
                     ''{\"token\":\"abc\",\"expires\":\"2030-01-01T00:00:00Z\"}'')"
    and tb: "Do mock_env (api ?b) [] (tokenRequest mock_env ?b ''https://broken.test/api/v1/auth/token'') =
              Inr (mock_ok ''application/json;charset=UTF-8'' ''<html>'')"
    and td: "Do mock_env (api ?d) [] (tokenRequest mock_env ?d ''https://down.test/api/v1/auth/token'') =
              Inl (Err ''dial tcp: connection refused'')"
    by (simp_all add: mock_Do_token)
  have ok: "StatusCode (mock_ok ct body) = 200 \<or> StatusCode (mock_ok ct body) = 201" for ct body
    by simp
  have dj: "json_Decode_token mock_env
              (Body (mock_ok ''application/json;charset=UTF-8''
                       ''{\"token\":\"abc\",\"expires\":\"2030-01-01T00:00:00Z\"}'')) (Token ?j) =
              (\<lparr>token = ''abc'', expires = ''2030-01-01T00:00:00Z''\<rparr>, None)"
    by (simp add: mock_json_Decode_token_def)
  have db: "json_Decode_token mock_env
              (Body (mock_ok ''application/json;charset=UTF-8'' ''<html>'')) (Token ?b) =
              (Token ?b, Some (Err ''invalid character looking for beginning of value''))"
    by (simp add: mock_json_Decode_token_def)
  have 1: "requestToken mock_env ?j [] =
             (None, ?j\<lparr>Token := \<lparr>token = ''abc'', expires = ''2030-01-01T00:00:00Z''\<rparr>\<rparr>,
              [] @ [tokenRequest mock_env ?j ''https://jamf.test/api/v1/auth/token''])"
    by (rule requestToken_success [OF uj tj ok, THEN conjunct1, THEN mp, OF dj])
  have 2: "fst (requestToken mock_env ?b []) =
             Some (Wrap ''response was successful but error occured decoding JSON token response''
                     (Err ''invalid character looking for beginning of value''))"
    by (rule requestToken_success [OF ub tb ok, THEN conjunct2, THEN conjunct1, THEN mp, OF db])
  have "url_Parse mock_env (Domain' ?d @ ''/api/v1/auth/token'') =
          Inl (Err ''dial tcp: connection refused'') \<or>
        url_Parse mock_env (Domain' ?d @ ''/api/v1/auth/token'') =
          Inr ''https://down.test/api/v1/auth/token'' \<and>
          Do mock_env (api ?d) [] (tokenRequest mock_env ?d ''https://down.test/api/v1/auth/token'') =
            Inl (Err ''dial tcp: connection refused'') \<or>
        url_Parse mock_env (Domain' ?d @ ''/api/v1/auth/token'') =
          Inr ''https://down.test/api/v1/auth/token'' \<and>
          Do mock_env (api ?d) [] (tokenRequest mock_env ?d ''https://down.test/api/v1/auth/token'') =
            Inr res2 \<and>
          StatusCode res2 \<noteq> 200 \<and> StatusCode res2 \<noteq> 201" for res2
    using ud td by simp
  from requestToken_success [OF uj tj ok, THEN conjunct2, THEN conjunct2, THEN mp, OF this]
  have 3: "fst (requestToken mock_env ?d []) \<noteq>
             Some (Wrap ''response was successful but error occured decoding JSON token response''
                     (Err ''invalid character looking for beginning of value''))"
    by simp
  from 1 2 3 show ?thesis by simp
qed

text \<open>
  C4. When the stored expiration is not empty, parses, and lies more than five minutes
  after the clock, \<^verbatim>\<open>checkTokenExpiration\<close> returns nil and leaves the client and the log
  as they were: no request is executed. When the stored expiration is empty, or parses
  and lies at most five minutes after the clock, the outcome is that of one call of
  \<^verbatim>\<open>requestToken\<close> on the client and the log as they were, its error wrapped; and when
  that outcome is nil, exactly one request has been executed, the token request, and the
  client's token is what the JSON decoder made of the stored token and the response body.
  (An empty expiration never parses as RFC3339, so "parses" implies "not empty" in Go.)
\<close>

theorem checkTokenExpiration_guard:
  "(expires (Token j) \<noteq> [] \<and> time_Parse env (expires (Token j)) = Inr t \<and>
    5 * Minute < t - time_Now env \<longrightarrow>
      checkTokenExpiration env j w = (None, j, w)) \<and>
   (expires (Token j) = [] \<or>
    time_Parse env (expires (Token j)) = Inr t \<and> t - time_Now env \<le> 5 * Minute \<longrightarrow>
      checkTokenExpiration env j w =
        (Wrapf (fst (requestToken env j w)) ''error requesting new bearer token'',
         snd (requestToken env j w)) \<and>
      (fst (checkTokenExpiration env j w) = None \<longrightarrow>
         (\<exists>u res. url_Parse env (Domain' j @ ''/api/v1/auth/token'') = Inr u \<and>
                  Do env (api j) w (tokenRequest env j u) = Inr res \<and>
                  (StatusCode res = 200 \<or> StatusCode res = 201) \<and>
                  snd (checkTokenExpiration env j w) =
                    (j\<lparr>Token := fst (json_Decode_token env (Body res) (Token j))\<rparr>,
                     w @ [tokenRequest env j u]))))"
proof (intro conjI impI)
  assume "expires (Token j) \<noteq> [] \<and> time_Parse env (expires (Token j)) = Inr t \<and>
          5 * Minute < t - time_Now env"
  then show "checkTokenExpiration env j w = (None, j, w)"
    by (intro checkTokenExpiration_valid [where t = t]) (simp_all add: mult.commute)
next
  assume "expires (Token j) = [] \<or>
          time_Parse env (expires (Token j)) = Inr t \<and> t - time_Now env \<le> 5 * Minute"
  then have "expires (Token j) = [] \<or>
             (time_Parse env (expires (Token j)) = Inr t \<and> t - time_Now env \<le> Minute * 5)"
    by (simp add: mult.commute)
  then show renew: "checkTokenExpiration env j w =
                      (Wrapf (fst (requestToken env j w)) ''error requesting new bearer token'',
                       snd (requestToken env j w))"
    by (rule checkTokenExpiration_renew)
  assume "fst (checkTokenExpiration env j w) = None"
  with renew have none: "fst (requestToken env j w) = None"
    by (cases "fst (requestToken env j w)") simp_all
  show "\<exists>u res. url_Parse env (Domain' j @ ''/api/v1/auth/token'') = Inr u \<and>
                Do env (api j) w (tokenRequest env j u) = Inr res \<and>
                (StatusCode res = 200 \<or> StatusCode res = 201) \<and>
                snd (checkTokenExpiration env j w) =
                  (j\<lparr>Token := fst (json_Decode_token env (Body res) (Token j))\<rparr>,
                   w @ [tokenRequest env j u])"
  proof (cases rule: requestToken_cases [where env = env and j = j and w = w])
    case (url err)
    from requestToken_url_fail [OF this, of w] none show ?thesis by simp
  next
    case (transport u err)
    from requestToken_transport_fail [OF this] none show ?thesis by simp
  next
    case (rejected u res)
    obtain body rerr where "ReadAll (Body res) = (body, rerr)"
      by (cases "ReadAll (Body res)")
    from requestToken_rejected [OF rejected this] none show ?thesis by simp
  next
    case (accepted u res)
    from requestToken_accepted [OF this] renew
    have "snd (checkTokenExpiration env j w) =
            (j\<lparr>Token := fst (json_Decode_token env (Body res) (Token j))\<rparr>,
             w @ [tokenRequest env j u])"
      by simp
    with accepted show ?thesis by blast
  qed
qed

theorem checkTokenExpiration_guard_witness:
  "checkTokenExpiration mock_env (mock_client ''https://jamf.test'' ''2030-01-01T00:00:00Z'') [] =
     (None, mock_client ''https://jamf.test'' ''2030-01-01T00:00:00Z'', []) \<and>
   checkTokenExpiration mock_env (mock_client ''https://jamf.test'' []) [] =
     (None,
      (mock_client ''https://jamf.test'' [])
        \<lparr>Token := \<lparr>token = ''abc'', expires = ''2030-01-01T00:00:00Z''\<rparr>\<rparr>,
      [tokenRequest mock_env (mock_client ''https://jamf.test'' [])
         ''https://jamf.test/api/v1/auth/token'']) \<and>
   checkTokenExpiration mock_env (mock_client ''https://jamf.test'' ''2029-12-31T23:02:00Z'') [] =
     (None,
      (mock_client ''https://jamf.test'' ''2029-12-31T23:02:00Z'')
        \<lparr>Token := \<lparr>token = ''abc'', expires = ''2030-01-01T00:00:00Z''\<rparr>\<rparr>,
      [tokenRequest mock_env (mock_client ''https://jamf.test'' ''2029-12-31T23:02:00Z'')
         ''https://jamf.test/api/v1/auth/token''])"
proof -
  let ?v = "mock_client ''https://jamf.test'' ''2030-01-01T00:00:00Z''"
  let ?a = "mock_client ''https://jamf.test'' []"
  let ?s = "mock_client ''https://jamf.test'' ''2029-12-31T23:02:00Z''"
  have rt: "requestToken mock_env (mock_client ''https://jamf.test'' e) [] =
              (None,
               (mock_client ''https://jamf.test'' e)
                 \<lparr>Token := \<lparr>token = ''abc'', expires = ''2030-01-01T00:00:00Z''\<rparr>\<rparr>,
               [tokenRequest mock_env (mock_client ''https://jamf.test'' e)
                  ''https://jamf.test/api/v1/auth/token''])" for e
    by (simp add: requestToken_accepted [where u = "''https://jamf.test/api/v1/auth/token''"
          and res = "mock_ok ''application/json;charset=UTF-8''
                       ''{\"token\":\"abc\",\"expires\":\"2030-01-01T00:00:00Z\"}''"]
        mock_Do_token mock_json_Decode_token_def)
  have "expires (Token ?v) \<noteq> [] \<and>
        time_Parse mock_env (expires (Token ?v)) = Inr (1893456000 * 1000000000) \<and>
        5 * Minute < 1893456000 * 1000000000 - time_Now mock_env"
    by (simp add: mock_time_Parse_def Minute_def)
  from checkTokenExpiration_guard [THEN conjunct1, THEN mp, OF this]
  have 1: "checkTokenExpiration mock_env ?v [] = (None, ?v, [])" .
  have "expires (Token ?a) = [] \<or>
        time_Parse mock_env (expires (Token ?a)) = Inr 0 \<and> 0 - time_Now mock_env \<le> 5 * Minute"
    by simp
  from checkTokenExpiration_guard [THEN conjunct2, THEN mp, OF this, THEN conjunct1, of "[]"]
  have 2: "checkTokenExpiration mock_env ?a [] =
             (None, ?a\<lparr>Token := \<lparr>token = ''abc'', expires = ''2030-01-01T00:00:00Z''\<rparr>\<rparr>,
              [tokenRequest mock_env ?a ''https://jamf.test/api/v1/auth/token''])"
    by (simp add: rt)
  have "expires (Token ?s) = [] \<or>
        time_Parse mock_env (expires (Token ?s)) = Inr (1893452520 * 1000000000) \<and>
        1893452520 * 1000000000 - time_Now mock_env \<le> 5 * Minute"
    by (simp add: mock_time_Parse_def Minute_def)
  from checkTokenExpiration_guard [THEN conjunct2, THEN mp, OF this, THEN conjunct1, of "[]"]
  have 3: "checkTokenExpiration mock_env ?s [] =
             (None, ?s\<lparr>Token := \<lparr>token = ''abc'', expires = ''2030-01-01T00:00:00Z''\<rparr>\<rparr>,
              [tokenRequest mock_env ?s ''https://jamf.test/api/v1/auth/token''])"
    by (simp add: rt)
  from 1 2 3 show ?thesis by simp
qed

text \<open>
  C7. Whenever the guard passes, \<^verbatim>\<open>makeAPIrequest\<close> executes exactly one request after it,
  and that request (which it also returns, having set the headers in place) carries
  \<^verbatim>\<open>Accept: application/json, application/xml;q=0.9\<close> (JSON at the default quality 1.0,
  XML at 0.9), the \<^verbatim>\<open>Cache-Control\<close> directives against caching, the
  \<^verbatim>\<open>Strict-Transport-Security\<close> hint, and \<^verbatim>\<open>Authorization\<close> equal to "Bearer " followed by
  the token the client holds after the guard, which is the token it holds at the end.
\<close>

theorem makeAPIrequest_headers:
  assumes "checkTokenExpiration env j w = (None, j1, w1)"
    and "makeAPIrequest env j w r v = (e, j', w', r', v')"
  shows "j' = j1 \<and> w' = w1 @ [r'] \<and>
         Method r' = Method r \<and> URL r' = URL r \<and>
         Header_Get (Header r') ''Accept'' = ''application/json, application/xml;q=0.9'' \<and>
         Header_Get (Header r') ''Cache-Control'' =
           ''no-store, no-cache, must-revalidate, max-age=0, post-check=0, pre-check=0'' \<and>
         Header_Get (Header r') ''Strict-Transport-Security'' =
           ''max-age=31536000 ; includeSubDomains'' \<and>
         Header_Get (Header r') ''Authorization'' = ''Bearer '' @ token (Token j')"
proof -
  from makeAPIrequest_passed [OF assms(1), of r v] assms(2)
  have "j' = j1" and "r' = decorated r (token (Token j1))" and "w' = w1 @ [r']"
    by auto
  then show ?thesis
    by (simp only: decorated_headers decorated_simps simp_thms)
qed

theorem makeAPIrequest_headers_witness:
  "Header_Get (Header (fst (snd (snd (snd
     (makeAPIrequest mock_env (mock_client ''https://jamf.test'' []) []
        (mock_request ''https://jamf.test/JSSResource/mock/test'') mock_v))))))
     ''Authorization'' = ''Bearer abc''"
proof -
  let ?a = "mock_client ''https://jamf.test'' []"
  let ?r = "mock_request ''https://jamf.test/JSSResource/mock/test''"
  obtain e j' w' r' v' where m: "makeAPIrequest mock_env ?a [] ?r mock_v = (e, j', w', r', v')"
    by (cases "makeAPIrequest mock_env ?a [] ?r mock_v")
  have "requestToken mock_env ?a [] =
          (None, ?a\<lparr>Token := \<lparr>token = ''abc'', expires = ''2030-01-01T00:00:00Z''\<rparr>\<rparr>,
           [tokenRequest mock_env ?a ''https://jamf.test/api/v1/auth/token''])"
    by (simp add: requestToken_accepted [where u = "''https://jamf.test/api/v1/auth/token''"
          and res = "mock_ok ''application/json;charset=UTF-8''
                       ''{\"token\":\"abc\",\"expires\":\"2030-01-01T00:00:00Z\"}''"]
        mock_Do_token mock_json_Decode_token_def)
  then have g: "checkTokenExpiration mock_env ?a [] =
          (None, ?a\<lparr>Token := \<lparr>token = ''abc'', expires = ''2030-01-01T00:00:00Z''\<rparr>\<rparr>,
           [tokenRequest mock_env ?a ''https://jamf.test/api/v1/auth/token''])"
    by (simp add: checkTokenExpiration_renew [where t = 0])
  from makeAPIrequest_headers [OF g m]
  have "Header_Get (Header r') ''Authorization'' = ''Bearer abc''"
    by simp
  with m show ?thesis by simp
qed

text \<open>
  C6. After a response with status 200 or 201, \<^verbatim>\<open>makeAPIrequest\<close> looks at the base media
  type only. For \<^verbatim>\<open>text/xml\<close> and \<^verbatim>\<open>application/xml\<close> the container and the error are those
  of the XML decoder on the body; for \<^verbatim>\<open>text/json\<close>, \<^verbatim>\<open>application/json\<close> and
  \<^verbatim>\<open>text/plain\<close> they are those of the JSON decoder. A decoder's error is returned
  wrapped, and the message of the error returned contains the media type.
\<close>

theorem makeAPIrequest_dispatch:
  assumes "checkTokenExpiration env j w = (None, j1, w1)"
    and "Do env (api j1) w1 (decorated r (token (Token j1))) = Inr res"
    and "StatusCode res = 200 \<or> StatusCode res = 201"
  shows "(baseMediaType res = ''text/xml'' \<or> baseMediaType res = ''application/xml'' \<longrightarrow>
            makeAPIrequest env j w r v =
              (Wrapf (snd (xml_Decode env (Body res) v))
                 (''response was successful but error occured decoding response body of type '' @
                  baseMediaType res),
               j1, w1 @ [decorated r (token (Token j1))], decorated r (token (Token j1)),
               fst (xml_Decode env (Body res) v))) \<and>
         (baseMediaType res = ''text/json'' \<or> baseMediaType res = ''application/json'' \<or>
          baseMediaType res = ''text/plain'' \<longrightarrow>
            makeAPIrequest env j w r v =
              (Wrapf (snd (json_Decode env (Body res) v))
                 (''response was successful but error occured error decoding response body of type '' @
                  baseMediaType res),
               j1, w1 @ [decorated r (token (Token j1))], decorated r (token (Token j1)),
               fst (json_Decode env (Body res) v))) \<and>
         (baseMediaType res = ''text/xml'' \<or> baseMediaType res = ''application/xml'' \<or>
          baseMediaType res = ''text/json'' \<or> baseMediaType res = ''application/json'' \<or>
          baseMediaType res = ''text/plain'' \<longrightarrow>
            (\<forall>err. fst (makeAPIrequest env j w r v) = Some err \<longrightarrow>
                   sublist (baseMediaType res) (Error err)))"
proof (intro conjI impI allI)
  assume "baseMediaType res = ''text/xml'' \<or> baseMediaType res = ''application/xml''"
  then show "makeAPIrequest env j w r v =
               (Wrapf (snd (xml_Decode env (Body res) v))
                  (''response was successful but error occured decoding response body of type '' @
                   baseMediaType res),
                j1, w1 @ [decorated r (token (Token j1))], decorated r (token (Token j1)),
                fst (xml_Decode env (Body res) v))"
    by (rule makeAPIrequest_xml [OF assms])
next
  assume "baseMediaType res = ''text/json'' \<or> baseMediaType res = ''application/json'' \<or>
          baseMediaType res = ''text/plain''"
  then show "makeAPIrequest env j w r v =
               (Wrapf (snd (json_Decode env (Body res) v))
                  (''response was successful but error occured error decoding response body of type '' @
                   baseMediaType res),
                j1, w1 @ [decorated r (token (Token j1))], decorated r (token (Token j1)),
                fst (json_Decode env (Body res) v))"
    by (rule makeAPIrequest_json [OF assms])
next
  fix err
  assume five: "baseMediaType res = ''text/xml'' \<or> baseMediaType res = ''application/xml'' \<or>
                baseMediaType res = ''text/json'' \<or> baseMediaType res = ''application/json'' \<or>
                baseMediaType res = ''text/plain''"
    and failed: "fst (makeAPIrequest env j w r v) = Some err"
  show "sublist (baseMediaType res) (Error err)"
  proof (cases "baseMediaType res = ''text/xml'' \<or> baseMediaType res = ''application/xml''")
    case True
    from makeAPIrequest_xml [OF assms True, of v] failed
    have "Wrapf (snd (xml_Decode env (Body res) v))
            (''response was successful but error occured decoding response body of type '' @
             baseMediaType res) = Some err"
      by simp
    then obtain cause where
      "err = Wrap (''response was successful but error occured decoding response body of type '' @
                   baseMediaType res) cause"
      by (cases "snd (xml_Decode env (Body res) v)") auto
    then show ?thesis
      by (simp only: Wrap_mentions_suffix)
  next
    case False
    with five have "baseMediaType res = ''text/json'' \<or> baseMediaType res = ''application/json'' \<or>
                    baseMediaType res = ''text/plain''"
      by blast
    from makeAPIrequest_json [OF assms this, of v] failed
    have "Wrapf (snd (json_Decode env (Body res) v))
            (''response was successful but error occured error decoding response body of type '' @
             baseMediaType res) = Some err"
      by simp
    then obtain cause where
      "err = Wrap (''response was successful but error occured error decoding response body of type '' @
                   baseMediaType res) cause"
      by (cases "snd (json_Decode env (Body res) v)") auto
    then show ?thesis
      by (simp only: Wrap_mentions_suffix)
  qed
qed

theorem makeAPIrequest_dispatch_witness:
  "makeAPIrequest mock_env (mock_client ''https://jamf.test'' ''2030-01-01T00:00:00Z'') []
     (mock_request ''https://jamf.test/JSSResource/mock/xml'') mock_v =
     (None, mock_client ''https://jamf.test'' ''2030-01-01T00:00:00Z'',
      [decorated (mock_request ''https://jamf.test/JSSResource/mock/xml'') ''old''],
      decorated (mock_request ''https://jamf.test/JSSResource/mock/xml'') ''old'',
      \<lparr>mStatus = ''OK'', mCount = 0\<rparr>) \<and>
   makeAPIrequest mock_env (mock_client ''https://jamf.test'' ''2030-01-01T00:00:00Z'') []
     (mock_request ''https://jamf.test/JSSResource/mock/test'') mock_v =
     (None, mock_client ''https://jamf.test'' ''2030-01-01T00:00:00Z'',
      [decorated (mock_request ''https://jamf.test/JSSResource/mock/test'') ''old''],
      decorated (mock_request ''https://jamf.test/JSSResource/mock/test'') ''old'',
      \<lparr>mStatus = ''OK'', mCount = 0\<rparr>) \<and>
   sublist ''application/json''
     (Error (the (fst (makeAPIrequest mock_env
        (mock_client ''https://jamf.test'' ''2030-01-01T00:00:00Z'') []
        (mock_request ''https://jamf.test/JSSResource/mock/partial'') mock_v))))"
proof -
  let ?c = "mock_client ''https://jamf.test'' ''2030-01-01T00:00:00Z''"
  let ?x = "mock_request ''https://jamf.test/JSSResource/mock/xml''"
  let ?t = "mock_request ''https://jamf.test/JSSResource/mock/test''"
  let ?p = "mock_request ''https://jamf.test/JSSResource/mock/partial''"
  have ok: "StatusCode (mock_ok ct body) = 200 \<or> StatusCode (mock_ok ct body) = 201" for ct body
    by simp
  have dx: "Do mock_env (api ?c) [] (decorated ?x (token (Token ?c))) =
              Inr (mock_ok ''text/xml;charset=UTF-8'' ''<mock><status>OK</status></mock>'')"
    and dt: "Do mock_env (api ?c) [] (decorated ?t (token (Token ?c))) =
              Inr (mock_ok ''text/plain; charset=utf-8'' ''{\"status\": \"OK\"}'')"
    and dp: "Do mock_env (api ?c) [] (decorated ?p (token (Token ?c))) =
              Inr (mock_ok ''application/json'' ''{\"status\": \"OK\", \"count\": \"many\"}'')"
    by (simp_all add: mock_Do_resource)
  from makeAPIrequest_dispatch [OF mock_valid dx ok, THEN conjunct1, of mock_v]
  have 1: "makeAPIrequest mock_env ?c [] ?x mock_v =
             (None, ?c, [decorated ?x ''old''], decorated ?x ''old'', \<lparr>mStatus = ''OK'', mCount = 0\<rparr>)"
    by (simp add: mock_baseMediaType mock_xml_Decode_def mock_v_def)
  from makeAPIrequest_dispatch [OF mock_valid dt ok, THEN conjunct2, THEN conjunct1, of mock_v]
  have 2: "makeAPIrequest mock_env ?c [] ?t mock_v =
             (None, ?c, [decorated ?t ''old''], decorated ?t ''old'', \<lparr>mStatus = ''OK'', mCount = 0\<rparr>)"
    by (simp add: mock_baseMediaType mock_json_Decode_def mock_v_def)
  from makeAPIrequest_dispatch [OF mock_valid dp ok, THEN conjunct2, THEN conjunct1, of mock_v]
  have "fst (makeAPIrequest mock_env ?c [] ?p mock_v) =
          Some (Wrap ''response was successful but error occured error decoding response body of type application/json''
                  (Err ''json: cannot unmarshal string into Go struct field MockResponse.count of type int''))"
    by (simp add: mock_baseMediaType mock_json_Decode_def)
  moreover
  from makeAPIrequest_dispatch [OF mock_valid dp ok, THEN conjunct2, THEN conjunct2, of mock_v]
  have "\<forall>err. fst (makeAPIrequest mock_env ?c [] ?p mock_v) = Some err \<longrightarrow>
              sublist ''application/json'' (Error err)"
    by (simp add: mock_baseMediaType)
  ultimately have 3: "sublist ''application/json''
                        (Error (the (fst (makeAPIrequest mock_env ?c [] ?p mock_v))))"
    by simp
  from 1 2 3 show ?thesis by simp
qed

text \<open>
  C2. The claim: for every response with a status other than 200 and 201, the error of
  \<^verbatim>\<open>makeAPIrequest\<close> and of \<^verbatim>\<open>requestToken\<close> shows both the response status and the body.
  It does not when the body can be read: the message is "request error: " followed by
  the body, and the status is not in it. On the mock server, the status is
  "500 Internal Server Error" and the message does not even contain "500".
\<close>

theorem rejection_message_omits_status:
  "mock_Do defaultHTTPClient []
     (tokenRequest mock_env (mock_client ''https://other.test'' [])
        ''https://other.test/api/v1/auth/token'') =
     Inr \<lparr>Status = ''500 Internal Server Error'', StatusCode = 500,
          RespHeader = [''Content-Type'' \<mapsto> [''text/plain; charset=utf-8'']],
          Body = Reader ''bad API call to https://other.test/api/v1/auth/token'' None\<rparr> \<and>
   fst (requestToken mock_env (mock_client ''https://other.test'' []) []) =
     Some (Err ''request error: bad API call to https://other.test/api/v1/auth/token'') \<and>
   \<not> sublist ''500''
        (Error (Err ''request error: bad API call to https://other.test/api/v1/auth/token'')) \<and>
   mock_Do defaultHTTPClient []
     (decorated (mock_request ''https://jamf.test/JSSResource/nothing'') ''old'') =
     Inr \<lparr>Status = ''500 Internal Server Error'', StatusCode = 500,
          RespHeader = [''Content-Type'' \<mapsto> [''text/plain; charset=utf-8'']],
          Body = Reader ''bad API call to https://jamf.test/JSSResource/nothing'' None\<rparr> \<and>
   fst (makeAPIrequest mock_env (mock_client ''https://jamf.test'' ''2030-01-01T00:00:00Z'') []
          (mock_request ''https://jamf.test/JSSResource/nothing'') mock_v) =
     Some (Err ''request error: bad API call to https://jamf.test/JSSResource/nothing'') \<and>
   \<not> sublist ''500''
        (Error (Err ''request error: bad API call to https://jamf.test/JSSResource/nothing''))"
proof -
  let ?o = "mock_client ''https://other.test'' []"
  let ?c = "mock_client ''https://jamf.test'' ''2030-01-01T00:00:00Z''"
  let ?r = "mock_request ''https://jamf.test/JSSResource/nothing''"
  have 1: "fst (requestToken mock_env ?o []) =
             Some (Err ''request error: bad API call to https://other.test/api/v1/auth/token'')"
    by (simp add: requestToken_rejected [where u = "''https://other.test/api/v1/auth/token''"
          and res = "\<lparr>Status = ''500 Internal Server Error'', StatusCode = 500,
             RespHeader = [''Content-Type'' \<mapsto> [''text/plain; charset=utf-8'']],
             Body = Reader ''bad API call to https://other.test/api/v1/auth/token'' None\<rparr>"
          and body = "''bad API call to https://other.test/api/v1/auth/token''" and rerr = None]
        mock_Do_token)
  have d: "Do mock_env (api ?c) [] (decorated ?r (token (Token ?c))) =
             Inr \<lparr>Status = ''500 Internal Server Error'', StatusCode = 500,
                  RespHeader = [''Content-Type'' \<mapsto> [''text/plain; charset=utf-8'']],
                  Body = Reader ''bad API call to https://jamf.test/JSSResource/nothing'' None\<rparr>"
    by (simp add: mock_Do_resource)
  have 2: "fst (makeAPIrequest mock_env ?c [] ?r mock_v) =
             Some (Err ''request error: bad API call to https://jamf.test/JSSResource/nothing'')"
    by (simp add: makeAPIrequest_rejected [OF mock_valid d, where rerr = None
          and body = "''bad API call to https://jamf.test/JSSResource/nothing''"])
  have 3: "\<not> sublist ''500''
             (Error (Err ''request error: bad API call to https://other.test/api/v1/auth/token''))"
    by code_simp
  have 4: "\<not> sublist ''500''
             (Error (Err ''request error: bad API call to https://jamf.test/JSSResource/nothing''))"
    by code_simp
  from 1 2 3 4 show ?thesis
    by (simp only: mock_Do_token mock_Do_resource simp_thms)
qed

text \<open>
  C2, as the code has it. After a response with a status other than 200 and 201,
  \<^verbatim>\<open>requestToken\<close> and \<^verbatim>\<open>makeAPIrequest\<close> fail. When the body can be read, the error's
  message is "request error: " followed by the body. When reading the body fails, the
  error is a different one: it wraps the read error, and its message names the response
  status and the read error.
\<close>

theorem rejection_error:
  assumes "StatusCode res \<noteq> 200" and "StatusCode res \<noteq> 201"
    and "ReadAll (Body res) = (body, rerr)"
  shows "(url_Parse env (Domain' j @ ''/api/v1/auth/token'') = Inr u \<and>
          Do env (api j) w (tokenRequest env j u) = Inr res \<longrightarrow>
            fst (requestToken env j w) =
              Some (case rerr of
                      None \<Rightarrow> Err (''request error: '' @ body)
                    | Some cause \<Rightarrow>
                        Wrap (''request error: '' @ Status res @
                              ''. unable to retrieve plain text response: '' @ Error cause) cause)) \<and>
         (checkTokenExpiration env j w = (None, j1, w1) \<and>
          Do env (api j1) w1 (decorated r (token (Token j1))) = Inr res \<longrightarrow>
            fst (makeAPIrequest env j w r v) =
              Some (case rerr of
                      None \<Rightarrow> Err (''request error: '' @ body)
                    | Some cause \<Rightarrow>
                        Wrap (''request error: '' @ Status res @
                              ''. unable to retrieve plain text response: '' @ Error cause) cause))"
proof (intro conjI impI)
  assume "url_Parse env (Domain' j @ ''/api/v1/auth/token'') = Inr u \<and>
          Do env (api j) w (tokenRequest env j u) = Inr res"
  then show "fst (requestToken env j w) =
               Some (case rerr of
                       None \<Rightarrow> Err (''request error: '' @ body)
                     | Some cause \<Rightarrow>
                         Wrap (''request error: '' @ Status res @
                               ''. unable to retrieve plain text response: '' @ Error cause) cause)"
    by (simp only: requestToken_rejected [OF _ _ assms] fst_conv)
next
  assume "checkTokenExpiration env j w = (None, j1, w1) \<and>
          Do env (api j1) w1 (decorated r (token (Token j1))) = Inr res"
  then show "fst (makeAPIrequest env j w r v) =
               Some (case rerr of
                       None \<Rightarrow> Err (''request error: '' @ body)
                     | Some cause \<Rightarrow>
                         Wrap (''request error: '' @ Status res @
                               ''. unable to retrieve plain text response: '' @ Error cause) cause)"
    by (simp only: makeAPIrequest_rejected [OF _ _ assms] fst_conv)
qed

theorem rejection_error_witness:
  "fst (requestToken mock_env (mock_client ''https://other.test'' []) []) =
     Some (Err ''request error: bad API call to https://other.test/api/v1/auth/token'') \<and>
   fst (makeAPIrequest mock_env (mock_client ''https://jamf.test'' ''2030-01-01T00:00:00Z'') []
          (mock_request ''https://jamf.test/JSSResource/mock/unreadable'') mock_v) =
     Some (Wrap ''request error: 502 Bad Gateway. unable to retrieve plain text response: unexpected EOF''
             (Err ''unexpected EOF''))"
proof -
  let ?o = "mock_client ''https://other.test'' []"
  let ?c = "mock_client ''https://jamf.test'' ''2030-01-01T00:00:00Z''"
  let ?r = "mock_request ''https://jamf.test/JSSResource/mock/unreadable''"
  let ?res500 = "\<lparr>Status = ''500 Internal Server Error'', StatusCode = 500,
                   RespHeader = [''Content-Type'' \<mapsto> [''text/plain; charset=utf-8'']],
                   Body = Reader ''bad API call to https://other.test/api/v1/auth/token'' None\<rparr>"
  let ?res502 = "\<lparr>Status = ''502 Bad Gateway'', StatusCode = 502, RespHeader = Map.empty,
                   Body = Reader [] (Some (Err ''unexpected EOF''))\<rparr>"
  have a: "url_Parse mock_env (Domain' ?o @ ''/api/v1/auth/token'') =
             Inr ''https://other.test/api/v1/auth/token'' \<and>
           Do mock_env (api ?o) [] (tokenRequest mock_env ?o ''https://other.test/api/v1/auth/token'') =
             Inr ?res500"
    by (simp add: mock_Do_token)
  have b: "checkTokenExpiration mock_env ?c [] = (None, ?c, []) \<and>
           Do mock_env (api ?c) [] (decorated ?r (token (Token ?c))) = Inr ?res502"
    by (simp add: mock_valid mock_Do_resource)
  have "StatusCode ?res500 \<noteq> 200" and "StatusCode ?res500 \<noteq> 201"
    and "ReadAll (Body ?res500) =
           (''bad API call to https://other.test/api/v1/auth/token'', None)"
    by simp_all
  from rejection_error [OF this, THEN conjunct1, THEN mp, OF a]
  have 1: "fst (requestToken mock_env ?o []) =
             Some (Err ''request error: bad API call to https://other.test/api/v1/auth/token'')"
    by simp
  have "StatusCode ?res502 \<noteq> 200" and "StatusCode ?res502 \<noteq> 201"
    and "ReadAll (Body ?res502) = ([], Some (Err ''unexpected EOF''))"
    by simp_all
  from rejection_error [OF this, THEN conjunct2, THEN mp, OF b, of mock_v]
  have 2: "fst (makeAPIrequest mock_env ?c [] ?r mock_v) =
             Some (Wrap ''request error: 502 Bad Gateway. unable to retrieve plain text response: unexpected EOF''
                     (Err ''unexpected EOF''))"
    by simp
  from 1 2 show ?thesis by simp
qed

text \<open>
  C3. The claim: whenever \<^verbatim>\<open>makeAPIrequest\<close> returns an error, decode failures included,
  the result container is unchanged. The decoders write into the container itself, so a
  decoder that fills some fields before it meets the one it cannot decode (as
  \<^verbatim>\<open>encoding/json\<close> does for a value of the wrong type) leaves a changed container behind
  the error. On the mock server's body with a count that is not a number, the call
  returns the decoder's error and the container's status has become "OK".
\<close>

theorem decode_failure_changes_container:
  "makeAPIrequest mock_env (mock_client ''https://jamf.test'' ''2030-01-01T00:00:00Z'') []
     (mock_request ''https://jamf.test/JSSResource/mock/partial'') mock_v =
     (Some (Wrap ''response was successful but error occured error decoding response body of type application/json''
              (Err ''json: cannot unmarshal string into Go struct field MockResponse.count of type int'')),
      mock_client ''https://jamf.test'' ''2030-01-01T00:00:00Z'',
      [decorated (mock_request ''https://jamf.test/JSSResource/mock/partial'') ''old''],
      decorated (mock_request ''https://jamf.test/JSSResource/mock/partial'') ''old'',
      \<lparr>mStatus = ''OK'', mCount = 0\<rparr>) \<and>
   mock_v = \<lparr>mStatus = [], mCount = 0\<rparr> \<and>
   \<lparr>mStatus = ''OK'', mCount = 0\<rparr> \<noteq> mock_v"
proof -
  let ?c = "mock_client ''https://jamf.test'' ''2030-01-01T00:00:00Z''"
  let ?p = "mock_request ''https://jamf.test/JSSResource/mock/partial''"
  have d: "Do mock_env (api ?c) [] (decorated ?p (token (Token ?c))) =
             Inr (mock_ok ''application/json'' ''{\"status\": \"OK\", \"count\": \"many\"}'')"
    by (simp add: mock_Do_resource)
  show ?thesis
    by (simp add: makeAPIrequest_json [OF mock_valid d] mock_baseMediaType mock_json_Decode_def
        mock_v_def)
qed

text \<open>
  C3, as the code has it. When \<^verbatim>\<open>makeAPIrequest\<close> fails because the guard fails, because
  the transport fails, or because the status is neither 200 nor 201, it returns an error
  and the container is unchanged. After a response with status 200 or 201 the container
  is what the decoder selected by the media type left in it, whether that decoder
  returned an error or not, and it is unchanged when the media type selects no decoder.
\<close>

theorem makeAPIrequest_container:
  assumes "makeAPIrequest env j w r v = (e, j', w', r', v')"
  shows "(checkTokenExpiration env j w = (Some err, j1, w1) \<longrightarrow> e \<noteq> None \<and> v' = v) \<and>
         (checkTokenExpiration env j w = (None, j1, w1) \<and>
          Do env (api j1) w1 (decorated r (token (Token j1))) = Inl err \<longrightarrow>
            e \<noteq> None \<and> v' = v) \<and>
         (checkTokenExpiration env j w = (None, j1, w1) \<and>
          Do env (api j1) w1 (decorated r (token (Token j1))) = Inr res \<and>
          StatusCode res \<noteq> 200 \<and> StatusCode res \<noteq> 201 \<longrightarrow>
            e \<noteq> None \<and> v' = v) \<and>
         (checkTokenExpiration env j w = (None, j1, w1) \<and>
          Do env (api j1) w1 (decorated r (token (Token j1))) = Inr res \<and>
          (StatusCode res = 200 \<or> StatusCode res = 201) \<longrightarrow>
            v' = (if baseMediaType res = ''text/xml'' \<or> baseMediaType res = ''application/xml''
                  then fst (xml_Decode env (Body res) v)
                  else if baseMediaType res = ''text/json'' \<or>
                          baseMediaType res = ''application/json'' \<or>
                          baseMediaType res = ''text/plain''
                  then fst (json_Decode env (Body res) v)
                  else v))"
proof (intro conjI impI)
  assume "checkTokenExpiration env j w = (Some err, j1, w1)"
  from makeAPIrequest_guard_fail [OF this, of r v] assms
  have "e \<noteq> None \<and> v' = v" by auto
  then show "e \<noteq> None" and "v' = v" by simp_all
next
  assume "checkTokenExpiration env j w = (None, j1, w1) \<and>
          Do env (api j1) w1 (decorated r (token (Token j1))) = Inl err"
  then have "makeAPIrequest env j w r v =
               (Some (Wrap (''error making '' @ Method r @ '' request to '' @ URL r) err),
                j1, w1 @ [decorated r (token (Token j1))], decorated r (token (Token j1)), v)"
    by (intro makeAPIrequest_transport_fail) simp_all
  with assms have "e \<noteq> None \<and> v' = v" by auto
  then show "e \<noteq> None" and "v' = v" by simp_all
next
  assume a: "checkTokenExpiration env j w = (None, j1, w1) \<and>
             Do env (api j1) w1 (decorated r (token (Token j1))) = Inr res \<and>
             StatusCode res \<noteq> 200 \<and> StatusCode res \<noteq> 201"
  obtain body rerr where rd: "ReadAll (Body res) = (body, rerr)"
    by (cases "ReadAll (Body res)")
  from a have "fst (makeAPIrequest env j w r v) \<noteq> None \<and>
               snd (snd (snd (snd (makeAPIrequest env j w r v)))) = v"
    by (simp add: makeAPIrequest_rejected [OF _ _ _ _ rd])
  with assms have "e \<noteq> None \<and> v' = v" by simp
  then show "e \<noteq> None" and "v' = v" by simp_all
next
  assume a: "checkTokenExpiration env j w = (None, j1, w1) \<and>
             Do env (api j1) w1 (decorated r (token (Token j1))) = Inr res \<and>
             (StatusCode res = 200 \<or> StatusCode res = 201)"
  then have g: "checkTokenExpiration env j w = (None, j1, w1)"
    and d: "Do env (api j1) w1 (decorated r (token (Token j1))) = Inr res"
    and ok: "StatusCode res = 200 \<or> StatusCode res = 201"
    by simp_all
  show "v' = (if baseMediaType res = ''text/xml'' \<or> baseMediaType res = ''application/xml''
              then fst (xml_Decode env (Body res) v)
              else if baseMediaType res = ''text/json'' \<or>
                      baseMediaType res = ''application/json'' \<or>
                      baseMediaType res = ''text/plain''
              then fst (json_Decode env (Body res) v)
              else v)"
  proof (cases "baseMediaType res = ''text/xml'' \<or> baseMediaType res = ''application/xml''")
    case True
    from makeAPIrequest_xml [OF g d ok True, of v] assms
    have "v' = fst (xml_Decode env (Body res) v)" by simp
    with True show ?thesis by (simp only: if_True)
  next
    case nx: False
    show ?thesis
    proof (cases "baseMediaType res = ''text/json'' \<or> baseMediaType res = ''application/json'' \<or>
                  baseMediaType res = ''text/plain''")
      case True
      from makeAPIrequest_json [OF g d ok True, of v] assms
      have "v' = fst (json_Decode env (Body res) v)" by simp
      with nx True show ?thesis by (simp only: if_True if_False)
    next
      case False
      with nx makeAPIrequest_other [OF g d ok, of v] assms
      have "v' = v" by simp
      with nx False show ?thesis by (simp only: if_False)
    qed
  qed
qed

theorem makeAPIrequest_container_witness:
  "snd (snd (snd (snd (makeAPIrequest mock_env (mock_client ''https://jamf.test'' ''yesterday'') []
     (mock_request ''https://jamf.test/JSSResource/mock/test'') mock_v)))) = mock_v \<and>
   snd (snd (snd (snd (makeAPIrequest mock_env
     (mock_client ''https://down.test'' ''2030-01-01T00:00:00Z'') []
     (mock_request ''https://down.test/JSSResource/mock/test'') mock_v)))) = mock_v \<and>
   snd (snd (snd (snd (makeAPIrequest mock_env
     (mock_client ''https://jamf.test'' ''2030-01-01T00:00:00Z'') []
     (mock_request ''https://jamf.test/JSSResource/nothing'') mock_v)))) = mock_v \<and>
   snd (snd (snd (snd (makeAPIrequest mock_env
     (mock_client ''https://jamf.test'' ''2030-01-01T00:00:00Z'') []
     (mock_request ''https://jamf.test/JSSResource/mock/partial'') mock_v)))) =
     \<lparr>mStatus = ''OK'', mCount = 0\<rparr>"
proof -
  let ?y = "mock_client ''https://jamf.test'' ''yesterday''"
  let ?c = "mock_client ''https://jamf.test'' ''2030-01-01T00:00:00Z''"
  let ?d = "mock_client ''https://down.test'' ''2030-01-01T00:00:00Z''"
  let ?t = "mock_request ''https://jamf.test/JSSResource/mock/test''"
  let ?dt = "mock_request ''https://down.test/JSSResource/mock/test''"
  let ?n = "mock_request ''https://jamf.test/JSSResource/nothing''"
  let ?p = "mock_request ''https://jamf.test/JSSResource/mock/partial''"
  let ?res500 = "\<lparr>Status = ''500 Internal Server Error'', StatusCode = 500,
                   RespHeader = [''Content-Type'' \<mapsto> [''text/plain; charset=utf-8'']],
                   Body = Reader ''bad API call to https://jamf.test/JSSResource/nothing'' None\<rparr>"
  obtain e1 j1 w1 r1 v1 where m1: "makeAPIrequest mock_env ?y [] ?t mock_v = (e1, j1, w1, r1, v1)"
    by (cases "makeAPIrequest mock_env ?y [] ?t mock_v")
  obtain e2 j2 w2 r2 v2 where m2: "makeAPIrequest mock_env ?d [] ?dt mock_v = (e2, j2, w2, r2, v2)"
    by (cases "makeAPIrequest mock_env ?d [] ?dt mock_v")
  obtain e3 j3 w3 r3 v3 where m3: "makeAPIrequest mock_env ?c [] ?n mock_v = (e3, j3, w3, r3, v3)"
    by (cases "makeAPIrequest mock_env ?c [] ?n mock_v")
  obtain e4 j4 w4 r4 v4 where m4: "makeAPIrequest mock_env ?c [] ?p mock_v = (e4, j4, w4, r4, v4)"
    by (cases "makeAPIrequest mock_env ?c [] ?p mock_v")
  have "checkTokenExpiration mock_env ?y [] =
          (Some (Wrap ''error parsing the bearer token expiration date: yesterday''
                   (Err ''parsing time: cannot parse as RFC3339'')), ?y, [])"
    by (simp add: checkTokenExpiration_parse_fail [where err = "Err ''parsing time: cannot parse as RFC3339''"]
        mock_time_Parse_def)
  from makeAPIrequest_container [OF m1, THEN conjunct1, THEN mp, OF this]
  have 1: "v1 = mock_v" by simp
  have "checkTokenExpiration mock_env ?d [] = (None, ?d, []) \<and>
        Do mock_env (api ?d) [] (decorated ?dt (token (Token ?d))) =
          Inl (Err ''dial tcp: connection refused'')"
    by (simp add: mock_valid mock_Do_resource)
  from makeAPIrequest_container [OF m2, THEN conjunct2, THEN conjunct1, THEN mp, OF this]
  have 2: "v2 = mock_v" by simp
  have "checkTokenExpiration mock_env ?c [] = (None, ?c, []) \<and>
        Do mock_env (api ?c) [] (decorated ?n (token (Token ?c))) = Inr ?res500 \<and>
        StatusCode ?res500 \<noteq> 200 \<and> StatusCode ?res500 \<noteq> 201"
    by (simp add: mock_valid mock_Do_resource)
  from makeAPIrequest_container [OF m3, THEN conjunct2, THEN conjunct2, THEN conjunct1, THEN mp,
      OF this]
  have 3: "v3 = mock_v" by simp
  have "checkTokenExpiration mock_env ?c [] = (None, ?c, []) \<and>
        Do mock_env (api ?c) [] (decorated ?p (token (Token ?c))) =
          Inr (mock_ok ''application/json'' ''{\"status\": \"OK\", \"count\": \"many\"}'') \<and>
        (StatusCode (mock_ok ''application/json'' ''{\"status\": \"OK\", \"count\": \"many\"}'') = 200 \<or>
         StatusCode (mock_ok ''application/json'' ''{\"status\": \"OK\", \"count\": \"many\"}'') = 201)"
    by (simp add: mock_valid mock_Do_resource)
  from makeAPIrequest_container [OF m4, THEN conjunct2, THEN conjunct2, THEN conjunct2, THEN mp,
      OF this]
  have 4: "v4 = \<lparr>mStatus = ''OK'', mCount = 0\<rparr>"
    by (simp add: mock_baseMediaType mock_json_Decode_def mock_v_def)
  from 1 2 3 4 m1 m2 m3 m4 show ?thesis by simp
qed


end
